theory Spec2Isabelle
  imports Main
begin

section \<open>Rate limiting utilities (src/lib/rate-limit.ts)\<close>

text \<open>
  Conventions of the embedding.
  \<^item> JavaScript numbers that hold counters and millisecond timestamps are modelled as
    unbounded integers (\<open>int\<close>); the code only adds, subtracts and compares them. Where a
    number is read from an object that is not an entry, it can also be \<open>NaN\<close> or missing.
  \<^item> The two module-level objects \<open>rateLimitStore\<close> and \<open>failedLoginStore\<close> are object
    literals used as dictionaries from key strings to entries. Their own properties are
    modelled as maps. A lookup \<open>store[key]\<close> that finds no own property continues in
    \<open>Object.prototype\<close>, as JavaScript does; what it finds there, and what the code then
    reads from it and writes to it, is modelled below.
  \<^item> Every call of \<open>Date.now()\<close> is a separate reading of the wall clock. Each function
    takes the readings it makes as explicit arguments, in the order in which the source
    makes them, and no relation between two readings is assumed.
\<close>

text \<open>A parsed JSON value; \<open>JObj\<close> lists the properties of an object, each name
  once.\<close>

datatype json =
    JNull
  | JBool bool
  | JNumber int
  | JStr string
  | JArr "json list"
  | JObj "(string \<times> json) list"

text \<open>A request: its headers (\<open>request.headers.get\<close>) and the outcome of
  \<open>request.json()\<close>, which is \<open>None\<close> when the promise rejects.\<close>

record request =
  headers :: "string \<rightharpoonup> string"
  json_body :: "json option"

record RateLimitConfig =
  windowMs :: int
  maxAttempts :: int
  skipSuccessfulRequests :: "bool option"
  skipFailedRequests :: "bool option"
  keyGenerator :: "(request \<Rightarrow> string) option"

record RateLimitEntry =
  count :: int
  resetAt :: int
  failedAttempts :: int
  lastFailedAt :: "int option"

record FailedLoginEntry =
  attempts :: int
  lastAttempt :: int
  nextAllowedAt :: int

record User =
  user_id :: string
  user_name :: "string option"
  user_email :: string
  user_password :: string
  user_emailVerified :: "int option"
  user_image :: "string option"
  user_createdAt :: int
  user_updatedAt :: int

record VerificationToken =
  vt_identifier :: string
  vt_token :: string
  vt_expires :: int

record mail =
  mail_to :: string
  mail_subject :: string
  mail_token :: string
  mail_userName :: string

subsection \<open>Values found through the prototype chain\<close>

text \<open>A number is an integer or \<open>NaN\<close>; a property value is a number or
  \<open>undefined\<close>.\<close>

datatype jsnum = JInt int | JNaN

datatype jsval = Undefined | JNum jsnum

text \<open>The properties that the rate limiter writes on the value of a store lookup. On an
  entry they are the entry's fields. On an inherited object (\<open>Object.prototype\<close> itself or
  one of its built-in functions) they are kept in a record of this type, \<open>undefined\<close>
  until written. The code never writes \<open>resetAt\<close> on a looked-up value, so an inherited
  object has no such property. The two counters \<open>count\<close> and \<open>failedAttempts\<close> of an
  inherited object are written only by \<open>x += 1\<close>: as \<open>undefined + 1\<close> and \<open>NaN + 1\<close>
  are \<open>NaN\<close>, each of them is \<open>undefined\<close> until the first such assignment and \<open>NaN\<close>
  from then on.\<close>

datatype counter = Unwritten | WrittenNaN

definition counter_value :: "counter \<Rightarrow> jsval" where
  "counter_value c = (case c of Unwritten \<Rightarrow> Undefined | WrittenNaN \<Rightarrow> JNum JNaN)"

record props =
  p_count :: counter
  p_failedAttempts :: counter
  p_lastFailedAt :: jsval
  p_attempts :: jsval
  p_lastAttempt :: jsval
  p_nextAllowedAt :: jsval

definition no_props :: props where
  "no_props =
     \<lparr> p_count = Unwritten, p_failedAttempts = Unwritten, p_lastFailedAt = Undefined,
       p_attempts = Undefined, p_lastAttempt = Undefined, p_nextAllowedAt = Undefined \<rparr>"

text \<open>The mutable state of the process and of its collaborators: the own properties of
  the two in-memory stores of the rate limiter; the properties written on
  \<open>Object.prototype\<close> (\<open>proto_props\<close>) and on each of its built-in functions
  (\<open>fn_props\<close>, by the name under which \<open>Object.prototype\<close> holds the function); the two
  database tables the routes use; and the mails handed to the transport. Effects that a
  property written on \<open>Object.prototype\<close> has on code outside the rate limiter are not
  modelled.\<close>

record state =
  rateLimitStore :: "string \<rightharpoonup> RateLimitEntry"
  failedLoginStore :: "string \<rightharpoonup> FailedLoginEntry"
  proto_props :: props
  fn_props :: "string \<Rightarrow> props"
  users :: "User list"
  verificationTokens :: "VerificationToken list"
  outbox :: "mail list"

text \<open>The function-valued own properties of \<open>Object.prototype\<close>. Its twelfth own
  property, the accessor \<open>__proto__\<close>, yields \<open>Object.prototype\<close> itself on an object
  literal.\<close>

definition builtin_functions :: "string list" where
  "builtin_functions =
     [''constructor'', ''__defineGetter__'', ''__defineSetter__'', ''hasOwnProperty'',
      ''__lookupGetter__'', ''__lookupSetter__'', ''isPrototypeOf'',
      ''propertyIsEnumerable'', ''toString'', ''valueOf'', ''toLocaleString'']"

text \<open>The property of a given name among those the rate limiter writes.\<close>

definition prop_named :: "props \<Rightarrow> string \<Rightarrow> jsval" where
  "prop_named p k =
     (if k = ''count'' then counter_value (p_count p)
      else if k = ''failedAttempts'' then counter_value (p_failedAttempts p)
      else if k = ''lastFailedAt'' then p_lastFailedAt p
      else if k = ''attempts'' then p_attempts p
      else if k = ''lastAttempt'' then p_lastAttempt p
      else if k = ''nextAllowedAt'' then p_nextAllowedAt p
      else Undefined)"

text \<open>What \<open>store[key]\<close> yields when the store has no own property \<open>key\<close>:
  \<open>Object.prototype\<close> itself, one of its built-in functions, a number that an earlier call
  wrote on \<open>Object.prototype\<close> under that name, or \<open>undefined\<close>.\<close>

datatype inherited = ProtoObject | BuiltinFunction string | Primitive jsnum | NotFound

definition inherited_value :: "state \<Rightarrow> string \<Rightarrow> inherited" where
  "inherited_value st key =
     (if key = ''__proto__'' then ProtoObject
      else if key \<in> set builtin_functions then BuiltinFunction key
      else (case prop_named (proto_props st) key of
              JNum n \<Rightarrow> Primitive n
            | Undefined \<Rightarrow> NotFound))"

text \<open>\<open>!value\<close> is false for an object and for a number other than 0 and \<open>NaN\<close>.\<close>

definition truthy :: "inherited \<Rightarrow> bool" where
  "truthy v =
     (case v of
        ProtoObject \<Rightarrow> True
      | BuiltinFunction f \<Rightarrow> True
      | Primitive (JInt n) \<Rightarrow> n \<noteq> 0
      | Primitive JNaN \<Rightarrow> False
      | NotFound \<Rightarrow> False)"

text \<open>Reading a property of an inherited value: a function's own property, else the one of
  \<open>Object.prototype\<close>; for \<open>Object.prototype\<close> and for a number (through
  \<open>Number.prototype\<close>) the one of \<open>Object.prototype\<close>.\<close>

definition read_prop :: "state \<Rightarrow> inherited \<Rightarrow> (props \<Rightarrow> jsval) \<Rightarrow> jsval" where
  "read_prop st v field =
     (case v of
        ProtoObject \<Rightarrow> field (proto_props st)
      | BuiltinFunction f \<Rightarrow>
          (case field (fn_props st f) of
             Undefined \<Rightarrow> field (proto_props st)
           | JNum n \<Rightarrow> JNum n)
      | Primitive n \<Rightarrow> field (proto_props st)
      | NotFound \<Rightarrow> Undefined)"

text \<open>Writing a property of an inherited value. The modules are strict code, where an
  assignment to a property of a number throws a \<open>TypeError\<close>: the result is \<open>None\<close>.\<close>

definition write_prop :: "inherited \<Rightarrow> (props \<Rightarrow> props) \<Rightarrow> state \<Rightarrow> state option" where
  "write_prop v upd st =
     (case v of
        ProtoObject \<Rightarrow> Some (st\<lparr> proto_props := upd (proto_props st) \<rparr>)
      | BuiltinFunction f \<Rightarrow> Some (st\<lparr> fn_props := (fn_props st)(f := upd (fn_props st f)) \<rparr>)
      | Primitive n \<Rightarrow> None
      | NotFound \<Rightarrow> None)"

text \<open>The integer a property value holds, if it holds one. A comparison with
  \<open>undefined\<close> or \<open>NaN\<close> is false, and \<open>x + 1\<close> is \<open>NaN\<close> for them.\<close>

definition int_of :: "jsval \<Rightarrow> int option" where
  "int_of v = (case v of JNum (JInt n) \<Rightarrow> Some n | _ \<Rightarrow> None)"

definition plus_one :: "jsval \<Rightarrow> jsnum" where
  "plus_one v = (case int_of v of Some n \<Rightarrow> JInt (n + 1) | None \<Rightarrow> JNaN)"

text \<open>An optional boolean property read in a condition: \<open>undefined\<close> is falsy.\<close>

definition flag :: "bool option \<Rightarrow> bool" where
  "flag b = (case b of None \<Rightarrow> False | Some v \<Rightarrow> v)"

text \<open>\<open>a || b\<close> on header values: \<open>null\<close> and the empty string are falsy.\<close>

definition defaultKeyGenerator :: "request \<Rightarrow> string" where
  "defaultKeyGenerator r =
     (case headers r ''x-forwarded-for'' of
        Some (c # cs) \<Rightarrow> c # cs
      | _ \<Rightarrow> (case headers r ''x-real-ip'' of
                Some (c # cs) \<Rightarrow> c # cs
              | _ \<Rightarrow> ''unknown''))"

definition keyOf :: "RateLimitConfig \<Rightarrow> request \<Rightarrow> string" where
  "keyOf config r =
     (case keyGenerator config of None \<Rightarrow> defaultKeyGenerator r | Some g \<Rightarrow> g r)"

definition cleanupExpiredEntries :: "int \<Rightarrow> state \<Rightarrow> state" where
  "cleanupExpiredEntries now st =
     st\<lparr> rateLimitStore :=
           (\<lambda>key. case rateLimitStore st key of
                     None \<Rightarrow> None
                   | Some e \<Rightarrow> if now > resetAt e then None else Some e),
         failedLoginStore :=
           (\<lambda>key. case failedLoginStore st key of
                     None \<Rightarrow> None
                   | Some e \<Rightarrow> if now - lastAttempt e > 24 * 60 * 60 * 1000 then None
                               else Some e) \<rparr>"

record check_result =
  isLimited :: bool
  remaining :: jsnum
  resetAt_r :: jsval

text \<open>\<open>checkRateLimit\<close>: \<open>now0\<close> is the reading made by the sweep, \<open>now\<close> the one made
  by the function body.\<close>

definition checkRateLimit ::
  "int \<Rightarrow> int \<Rightarrow> request \<Rightarrow> RateLimitConfig \<Rightarrow> state \<Rightarrow> check_result \<times> state" where
  "checkRateLimit now0 now r config st0 =
     (let st = cleanupExpiredEntries now0 st0;
          key = keyOf config r;
          fresh = \<lparr> count = 0, resetAt = now + windowMs config,
                    failedAttempts = 0, lastFailedAt = None \<rparr>;
          created = st\<lparr> rateLimitStore := (rateLimitStore st)(key \<mapsto> fresh) \<rparr>;
          of_entry = (\<lambda>entry.
            \<lparr> isLimited = (count entry \<ge> maxAttempts config),
              remaining = JInt (max 0 (maxAttempts config - count entry)),
              resetAt_r = JNum (JInt (resetAt entry)) \<rparr>)
      in case rateLimitStore st key of
           Some e \<Rightarrow> if now > resetAt e then (of_entry fresh, created) else (of_entry e, st)
         | None \<Rightarrow>
             (let v = inherited_value st key in
              if \<not> truthy v then (of_entry fresh, created)
              else
                (let c = read_prop st v (\<lambda>p. counter_value (p_count p)) in
                 (\<lparr> isLimited = (case int_of c of Some n \<Rightarrow> n \<ge> maxAttempts config
                                  | None \<Rightarrow> False),
                    remaining = (case int_of c of
                                   Some n \<Rightarrow> JInt (max 0 (maxAttempts config - n))
                                 | None \<Rightarrow> JNaN),
                    resetAt_r = Undefined \<rparr>, st))))"

text \<open>\<open>updateRateLimit\<close>; the result is \<open>None\<close> when an assignment throws, which happens
  before anything is written.\<close>

definition updateRateLimit ::
  "int \<Rightarrow> request \<Rightarrow> RateLimitConfig \<Rightarrow> bool \<Rightarrow> state \<Rightarrow> state option" where
  "updateRateLimit now r config success st =
     (let key = keyOf config r;
          shouldCount = (if success then \<not> flag (skipSuccessfulRequests config)
                         else \<not> flag (skipFailedRequests config))
      in case rateLimitStore st key of
           Some e \<Rightarrow>
             (let e1 = (if shouldCount then e\<lparr> count := count e + 1 \<rparr> else e);
                  e2 = (if \<not> success
                        then e1\<lparr> failedAttempts := failedAttempts e1 + 1,
                                 lastFailedAt := Some now \<rparr>
                        else e1)
              in Some (st\<lparr> rateLimitStore := (rateLimitStore st)(key \<mapsto> e2) \<rparr>))
         | None \<Rightarrow>
             (let v = inherited_value st key in
              if \<not> truthy v then Some st
              else
                Option.bind
                  (if shouldCount then write_prop v (\<lambda>p. p\<lparr> p_count := WrittenNaN \<rparr>) st
                   else Some st)
                  (\<lambda>st1.
                     if \<not> success
                     then Option.bind
                            (write_prop v (\<lambda>p. p\<lparr> p_failedAttempts := WrittenNaN \<rparr>) st1)
                            (write_prop v (\<lambda>p. p\<lparr> p_lastFailedAt := JNum (JInt now) \<rparr>))
                     else Some st1)))"

definition calculateProgressiveDelay :: "int \<Rightarrow> int" where
  "calculateProgressiveDelay n =
     (if n \<le> 0 then 0
      else if n \<le> 5 then 2 ^ nat (n - 1) * 1000
      else 30 * 1000)"

text \<open>The table of the specification, written out: 0 up to zero attempts, one entry for
  each of 1 to 5 attempts, 30000 beyond.\<close>

definition delay_table :: "int \<Rightarrow> int" where
  "delay_table n =
     (if n \<le> 0 then 0
      else if n = 1 then 1000
      else if n = 2 then 2000
      else if n = 3 then 4000
      else if n = 4 then 8000
      else if n = 5 then 16000
      else 30000)"

text \<open>\<open>calculateProgressiveDelay\<close> on a number that may be \<open>NaN\<close>: both comparisons are
  false for \<open>NaN\<close>, which leaves the last \<open>return\<close>.\<close>

definition calculateProgressiveDelay_num :: "jsnum \<Rightarrow> int" where
  "calculateProgressiveDelay_num n =
     (case n of JInt k \<Rightarrow> calculateProgressiveDelay k | JNaN \<Rightarrow> 30 * 1000)"

record delay_result =
  isDelayed :: bool
  delayMs :: int
  nextAllowedAt_r :: int

definition checkLoginDelay :: "int \<Rightarrow> int \<Rightarrow> request \<Rightarrow> state \<Rightarrow> delay_result \<times> state" where
  "checkLoginDelay now0 now r st0 =
     (let st = cleanupExpiredEntries now0 st0;
          key = defaultKeyGenerator r;
          not_delayed = \<lparr> isDelayed = False, delayMs = 0, nextAllowedAt_r = now \<rparr>;
          delayed = (\<lambda>n. \<lparr> isDelayed = True, delayMs = n - now, nextAllowedAt_r = n \<rparr>)
      in case failedLoginStore st key of
           Some e \<Rightarrow>
             if now < nextAllowedAt e then (delayed (nextAllowedAt e), st) else (not_delayed, st)
         | None \<Rightarrow>
             (let v = inherited_value st key in
              if \<not> truthy v then (not_delayed, st)
              else (case int_of (read_prop st v p_nextAllowedAt) of
                      Some n \<Rightarrow> if now < n then (delayed n, st) else (not_delayed, st)
                    | None \<Rightarrow> (not_delayed, st))))"

text \<open>\<open>recordFailedLogin\<close>; the result is \<open>None\<close> when an assignment throws, which happens
  before anything is written.\<close>

definition recordFailedLogin :: "int \<Rightarrow> request \<Rightarrow> state \<Rightarrow> state option" where
  "recordFailedLogin now r st =
     (let key = defaultKeyGenerator r;
          on_entry = (\<lambda>e0.
            let e1 = (if now - lastAttempt e0 > 60 * 60 * 1000 then e0\<lparr> attempts := 0 \<rparr>
                      else e0);
                e2 = e1\<lparr> attempts := attempts e1 + 1, lastAttempt := now \<rparr>;
                delay = calculateProgressiveDelay (attempts e2);
                e3 = e2\<lparr> nextAllowedAt := now + delay \<rparr>
            in Some (st\<lparr> failedLoginStore := (failedLoginStore st)(key \<mapsto> e3) \<rparr>))
      in case failedLoginStore st key of
           Some e \<Rightarrow> on_entry e
         | None \<Rightarrow>
             (let v = inherited_value st key in
              if \<not> truthy v
              then on_entry \<lparr> attempts = 0, lastAttempt = now, nextAllowedAt = now \<rparr>
              else
                Option.bind
                  (if (case int_of (read_prop st v p_lastAttempt) of
                         Some l \<Rightarrow> now - l > 60 * 60 * 1000
                       | None \<Rightarrow> False)
                   then write_prop v (\<lambda>p. p\<lparr> p_attempts := JNum (JInt 0) \<rparr>) st
                   else Some st)
                  (\<lambda>st1.
                     let a = plus_one (read_prop st1 v p_attempts);
                         delay = calculateProgressiveDelay_num a
                     in Option.bind (write_prop v (\<lambda>p. p\<lparr> p_attempts := JNum a \<rparr>) st1)
                          (\<lambda>st2.
                             Option.bind
                               (write_prop v (\<lambda>p. p\<lparr> p_lastAttempt := JNum (JInt now) \<rparr>)
                                  st2)
                               (write_prop v
                                  (\<lambda>p. p\<lparr> p_nextAllowedAt := JNum (JInt (now + delay)) \<rparr>))))))"

text \<open>\<open>delete failedLoginStore[key]\<close> removes an own property and nothing else.\<close>

definition clearFailedLogins :: "request \<Rightarrow> state \<Rightarrow> state" where
  "clearFailedLogins r st =
     st\<lparr> failedLoginStore := (failedLoginStore st)(defaultKeyGenerator r := None) \<rparr>"

section \<open>What the routes take from outside\<close>

text \<open>
  Everything a route handler obtains from outside the repository during one request:
  the clock readings (one field for each \<open>Date.now()\<close> or \<open>new Date()\<close> the handler can
  reach; the login handler can call the bookkeeping functions again in its inner and in its
  outer \<open>catch\<close> block, with readings of their own), the random token and identifier, the bcrypt hash, the library predicates (the
  e-mail check of the schema library, bcrypt's \<open>compare\<close>), the configured token lifetime
  (\<open>env.security.resetTokenExpiry\<close>, in seconds) and whether the mail transport accepts
  the message. The tables are part of the state; a query on them fails only where a
  unique key would be violated.
\<close>

record env =
  t_sweep :: int
  t_check :: int
  t_retry :: int
  t_retry_hdr :: int
  t_dsweep :: int
  t_delay :: int
  t_record :: int
  t_update :: int
  t_record_inner :: int
  t_update_inner :: int
  t_record_outer :: int
  t_update_outer :: int
  t_route :: int
  t_write :: int
  rand_token :: string
  new_id :: string
  hashed :: string
  email_ok :: "string \<Rightarrow> bool"
  compare :: "string \<Rightarrow> string \<Rightarrow> bool"
  resetTokenExpiry :: int
  mail_ok :: bool

section \<open>Responses\<close>

type_synonym PasswordValidationError = "string \<times> string"

text \<open>The \<open>details\<close> of a 400 response: the error object of the schema library (not
  modelled further) or the list of violated password rules.\<close>

datatype details = SchemaIssues | PasswordIssues "PasswordValidationError list"

record login_user =
  lu_id :: string
  lu_name :: "string option"
  lu_email :: string
  lu_image :: "string option"
  lu_emailVerified :: "int option"

record created_user =
  cu_id :: string
  cu_name :: "string option"
  cu_email :: string
  cu_createdAt :: int

datatype response_body =
    Msg string
  | MsgLoginUser string login_user
  | MsgCreatedUser string created_user
  | Err string
  | ErrDetails string details
  | ErrCode string string int

datatype header_value = HNum jsnum | HDate int

record response =
  status :: nat
  body :: response_body
  resp_headers :: "(string \<times> header_value) list"

definition json_response :: "response_body \<Rightarrow> nat \<Rightarrow> response" where
  "json_response b s = \<lparr> status = s, body = b, resp_headers = [] \<rparr>"

section \<open>Password rules (src/lib/password.ts)\<close>

definition is_upper :: "char \<Rightarrow> bool" where
  "is_upper c = (65 \<le> (of_char c :: nat) \<and> (of_char c :: nat) \<le> 90)"

definition is_lower :: "char \<Rightarrow> bool" where
  "is_lower c = (97 \<le> (of_char c :: nat) \<and> (of_char c :: nat) \<le> 122)"

definition is_digit :: "char \<Rightarrow> bool" where
  "is_digit c = (48 \<le> (of_char c :: nat) \<and> (of_char c :: nat) \<le> 57)"

definition validatePasswordStrength :: "string \<Rightarrow> PasswordValidationError list" where
  "validatePasswordStrength password =
     (if length password < 8
      then [(''password.length'', ''Password must be at least 8 characters long'')] else []) @
     (if \<not> list_ex is_upper password
      then [(''password.uppercase'', ''Password must contain at least one uppercase letter'')]
      else []) @
     (if \<not> list_ex is_lower password
      then [(''password.lowercase'', ''Password must contain at least one lowercase letter'')]
      else []) @
     (if \<not> list_ex is_digit password
      then [(''password.number'', ''Password must contain at least one number'')] else []) @
     (if \<not> list_ex (\<lambda>c. \<not> is_upper c \<and> \<not> is_lower c \<and> \<not> is_digit c) password
      then [(''password.special'', ''Password must contain at least one special character'')]
      else [])"

section \<open>Middleware and configurations (src/lib/rate-limit.ts)\<close>

text \<open>\<open>Math.ceil(x / 1000)\<close> on an integer \<open>x\<close>.\<close>

definition ceil_div_1000 :: "int \<Rightarrow> int" where
  "ceil_div_1000 x = - ((- x) div 1000)"

text \<open>What a call yields: a value, or a \<open>throw\<close>.\<close>

datatype 'a outcome = Returns 'a | Throws

text \<open>The rate-limit middleware. \<open>new Date(resetAt).toISOString()\<close> throws a
  \<open>RangeError\<close> when \<open>resetAt\<close> is not a number, before the response is built. (Only an
  entry makes \<open>isLimited\<close> true, so this does not happen.)\<close>

definition createRateLimitMiddleware ::
  "RateLimitConfig \<Rightarrow> env \<Rightarrow> request \<Rightarrow> state \<Rightarrow> response option outcome \<times> state" where
  "createRateLimitMiddleware config ev r st =
     (let (res, st') = checkRateLimit (t_sweep ev) (t_check ev) r config st in
      if isLimited res
      then (case int_of (resetAt_r res) of
              None \<Rightarrow> (Throws, st')
            | Some reset \<Rightarrow>
                (Returns (Some
                   \<lparr> status = 429,
                     body = ErrCode ''Too many requests. Please try again later.''
                              ''RATE_LIMIT_EXCEEDED'' (ceil_div_1000 (reset - t_retry ev)),
                     resp_headers =
                       [(''X-RateLimit-Limit'', HNum (JInt (maxAttempts config))),
                        (''X-RateLimit-Remaining'', HNum (remaining res)),
                        (''X-RateLimit-Reset'', HDate reset),
                        (''Retry-After'',
                           HNum (JInt (ceil_div_1000 (reset - t_retry_hdr ev))))] \<rparr>),
                 st'))
      else (Returns None, st'))"

definition createLoginDelayMiddleware ::
  "env \<Rightarrow> request \<Rightarrow> state \<Rightarrow> response option \<times> state" where
  "createLoginDelayMiddleware ev r st =
     (let (res, st') = checkLoginDelay (t_dsweep ev) (t_delay ev) r st in
      if isDelayed res
      then (Some \<lparr> status = 429,
                    body = ErrCode ''Too many failed login attempts. Please try again later.''
                             ''LOGIN_DELAY'' (ceil_div_1000 (delayMs res)),
                    resp_headers =
                      [(''Retry-After'', HNum (JInt (ceil_div_1000 (delayMs res))))] \<rparr>,
            st')
      else (None, st'))"

definition rateLimitConfigs_auth :: RateLimitConfig where
  "rateLimitConfigs_auth =
     \<lparr> windowMs = 60 * 60 * 1000, maxAttempts = 5, skipSuccessfulRequests = Some True,
       skipFailedRequests = None, keyGenerator = None \<rparr>"

definition rateLimitConfigs_login :: RateLimitConfig where
  "rateLimitConfigs_login =
     \<lparr> windowMs = 15 * 60 * 1000, maxAttempts = 5, skipSuccessfulRequests = Some True,
       skipFailedRequests = None, keyGenerator = None \<rparr>"

definition rateLimitConfigs_passwordReset :: RateLimitConfig where
  "rateLimitConfigs_passwordReset =
     \<lparr> windowMs = 60 * 60 * 1000, maxAttempts = 3, skipSuccessfulRequests = Some True,
       skipFailedRequests = None, keyGenerator = None \<rparr>"

section \<open>Request schemas\<close>

text \<open>
  \<open>schema.safeParse(body)\<close> is modelled by its outcome: \<open>Some data\<close> on success, \<open>None\<close>
  on failure. A schema of string fields accepts a JSON object whose fields of those names
  are strings that meet the stated constraint.
\<close>

definition str_field :: "json \<Rightarrow> string \<Rightarrow> string option" where
  "str_field j k =
     (case j of
        JObj kvs \<Rightarrow> (case map_of kvs k of Some (JStr s) \<Rightarrow> Some s | _ \<Rightarrow> None)
      | _ \<Rightarrow> None)"

text \<open>An optional string field: absent, or a string.\<close>

definition opt_str_field :: "json \<Rightarrow> string \<Rightarrow> string option option" where
  "opt_str_field j k =
     (case j of
        JObj kvs \<Rightarrow> (case map_of kvs k of
                       None \<Rightarrow> Some None
                     | Some (JStr s) \<Rightarrow> Some (Some s)
                     | _ \<Rightarrow> None)
      | _ \<Rightarrow> None)"

record register_data =
  rd_name :: string
  rd_email :: string
  rd_password :: string

definition registerSchema :: "env \<Rightarrow> json \<Rightarrow> register_data option" where
  "registerSchema ev j =
     (case (str_field j ''name'', str_field j ''email'', str_field j ''password'') of
        (Some n, Some e, Some p) \<Rightarrow>
          if length n \<ge> 2 \<and> email_ok ev e \<and> length p \<ge> 8
          then Some \<lparr> rd_name = n, rd_email = e, rd_password = p \<rparr>
          else None
      | _ \<Rightarrow> None)"

record login_data =
  ld_email :: string
  ld_password :: string
  ld_callbackUrl :: "string option"

definition loginSchema :: "env \<Rightarrow> json \<Rightarrow> login_data option" where
  "loginSchema ev j =
     (case (str_field j ''email'', str_field j ''password'', opt_str_field j ''callbackUrl'') of
        (Some e, Some p, Some cb) \<Rightarrow>
          if email_ok ev e \<and> length p \<ge> 1
          then Some \<lparr> ld_email = e, ld_password = p, ld_callbackUrl = cb \<rparr>
          else None
      | _ \<Rightarrow> None)"

definition forgotPasswordSchema :: "env \<Rightarrow> json \<Rightarrow> string option" where
  "forgotPasswordSchema ev j =
     (case str_field j ''email'' of
        Some e \<Rightarrow> if email_ok ev e then Some e else None
      | None \<Rightarrow> None)"



section \<open>Route handlers\<close>

text \<open>
  Each handler maps the outside values, the request and the state before the request to
  the response and the state after it. A \<open>throw\<close> inside the handler's \<open>try\<close> block is
  the branch that returns what the \<open>catch\<close> block returns, in the state reached when it
  was thrown. The modelled sources of a \<open>throw\<close> are a rejected \<open>request.json()\<close>, an
  insert that violates a unique key, a mail transport that refuses the message, and the
  rate limiter (see \<open>write_prop\<close> and \<open>createRateLimitMiddleware\<close>).
\<close>

text \<open>A bookkeeping update followed by \<open>return ok\<close>, inside a \<open>try\<close> whose \<open>catch\<close>
  returns \<open>failed\<close>.\<close>

definition update_then :: "response \<Rightarrow> response \<Rightarrow> state \<Rightarrow> state option \<Rightarrow> response \<times> state" where
  "update_then ok failed st upd = (case upd of Some st' \<Rightarrow> (ok, st') | None \<Rightarrow> (failed, st))"

subsection \<open>POST /api/auth/register\<close>

definition register_failed :: response where
  "register_failed = json_response (Err ''Failed to register user'') 500"

definition register_POST :: "env \<Rightarrow> request \<Rightarrow> state \<Rightarrow> response \<times> state" where
  "register_POST ev r st0 =
     (case createRateLimitMiddleware rateLimitConfigs_auth ev r st0 of
        (Throws, st) \<Rightarrow> (register_failed, st)
      | (Returns (Some rateLimitResponse), st) \<Rightarrow> (rateLimitResponse, st)
      | (Returns None, st) \<Rightarrow>
          (case json_body r of
             None \<Rightarrow> (register_failed, st)
           | Some b \<Rightarrow>
               (case registerSchema ev b of
                  None \<Rightarrow>
                    (json_response (ErrDetails ''Invalid input data'' SchemaIssues) 400, st)
                | Some d \<Rightarrow>
                    (let passwordErrors = validatePasswordStrength (rd_password d) in
                     if length passwordErrors > 0
                     then (json_response
                             (ErrDetails ''Password does not meet security requirements''
                                (PasswordIssues passwordErrors)) 400, st)
                     else
                       (case find (\<lambda>u. user_email u = rd_email d) (users st) of
                          Some existingUser \<Rightarrow>
                            update_then
                              (json_response (Err ''Email already registered'') 409)
                              register_failed st
                              (updateRateLimit (t_update ev) r rateLimitConfigs_auth False st)
                        | None \<Rightarrow>
                            if list_ex (\<lambda>u. user_id u = new_id ev) (users st)
                            then (register_failed, st)
                            else
                              (let user = \<lparr> user_id = new_id ev,
                                             user_name = Some (rd_name d),
                                             user_email = rd_email d,
                                             user_password = hashed ev,
                                             user_emailVerified = None,
                                             user_image = None,
                                             user_createdAt = t_write ev,
                                             user_updatedAt = t_write ev \<rparr>;
                                   st1 = st\<lparr> users := users st @ [user] \<rparr>
                               in update_then
                                    (json_response
                                       (MsgCreatedUser ''User registered successfully''
                                          \<lparr> cu_id = user_id user, cu_name = user_name user,
                                            cu_email = user_email user,
                                            cu_createdAt = user_createdAt user \<rparr>) 201)
                                    register_failed st1
                                    (updateRateLimit (t_update ev) r rateLimitConfigs_auth
                                       True st1)))))))"

subsection \<open>POST /api/auth/login\<close>

text \<open>The two bookkeeping calls of a failure path, followed by \<open>return response\<close>; a
  \<open>throw\<close> of either call goes to \<open>handler\<close>, the enclosing \<open>catch\<close> block, in the state
  reached.\<close>

definition record_failure ::
  "int \<Rightarrow> int \<Rightarrow> request \<Rightarrow> response \<Rightarrow> (state \<Rightarrow> response outcome \<times> state) \<Rightarrow> state \<Rightarrow>
   response outcome \<times> state" where
  "record_failure now_record now_update r response handler st =
     (case recordFailedLogin now_record r st of
        None \<Rightarrow> handler st
      | Some st1 \<Rightarrow>
          (case updateRateLimit now_update r rateLimitConfigs_login False st1 of
             None \<Rightarrow> handler st1
           | Some st2 \<Rightarrow> (Returns response, st2)))"

text \<open>The outer \<open>catch\<close> block; a \<open>throw\<close> inside it leaves the handler.\<close>

definition login_outer_catch :: "env \<Rightarrow> request \<Rightarrow> state \<Rightarrow> response outcome \<times> state" where
  "login_outer_catch ev r =
     record_failure (t_record_outer ev) (t_update_outer ev) r
       (json_response (Err ''Failed to process login request'') 500)
       (\<lambda>st. (Throws, st))"

text \<open>The inner \<open>catch\<close> block; a \<open>throw\<close> inside it goes to the outer one.\<close>

definition login_inner_catch :: "env \<Rightarrow> request \<Rightarrow> state \<Rightarrow> response outcome \<times> state" where
  "login_inner_catch ev r =
     record_failure (t_record_inner ev) (t_update_inner ev) r
       (json_response (Err ''Authentication failed'') 500)
       (login_outer_catch ev r)"

definition login_POST :: "env \<Rightarrow> request \<Rightarrow> state \<Rightarrow> response outcome \<times> state" where
  "login_POST ev r st0 =
     (case createRateLimitMiddleware rateLimitConfigs_login ev r st0 of
        (Throws, st) \<Rightarrow> login_outer_catch ev r st
      | (Returns (Some rateLimitResponse), st) \<Rightarrow> (Returns rateLimitResponse, st)
      | (Returns None, st) \<Rightarrow>
          (case createLoginDelayMiddleware ev r st of
             (Some delayResponse, st') \<Rightarrow> (Returns delayResponse, st')
           | (None, st') \<Rightarrow>
               (case json_body r of
                  None \<Rightarrow> login_outer_catch ev r st'
                | Some b \<Rightarrow>
                    (case loginSchema ev b of
                       None \<Rightarrow>
                         record_failure (t_record ev) (t_update ev) r
                           (json_response (ErrDetails ''Invalid input data'' SchemaIssues) 400)
                           (login_outer_catch ev r) st'
                     | Some d \<Rightarrow>
                         (let rejected =
                                record_failure (t_record ev) (t_update ev) r
                                  (json_response (Err ''Invalid email or password'') 401)
                                  (login_inner_catch ev r) st'
                          in case find (\<lambda>u. user_email u = ld_email d) (users st') of
                               None \<Rightarrow> rejected
                             | Some user \<Rightarrow>
                                 if \<not> compare ev (ld_password d) (user_password user)
                                 then rejected
                                 else
                                   (let st1 = clearFailedLogins r st' in
                                    case updateRateLimit (t_update ev) r
                                           rateLimitConfigs_login True st1 of
                                      None \<Rightarrow> login_inner_catch ev r st1
                                    | Some st2 \<Rightarrow>
                                        (Returns
                                           (json_response
                                              (MsgLoginUser
                                                 ''Credentials validated successfully''
                                                 \<lparr> lu_id = user_id user,
                                                   lu_name = user_name user,
                                                   lu_email = user_email user,
                                                   lu_image = user_image user,
                                                   lu_emailVerified =
                                                     user_emailVerified user \<rparr>) 200),
                                         st2)))))))"

subsection \<open>POST /api/auth/forgot-password\<close>

text \<open>\<open>user.name || "User"\<close>: a missing or empty name is replaced.\<close>

definition name_or_User :: "string option \<Rightarrow> string" where
  "name_or_User n = (case n of Some (c # cs) \<Rightarrow> c # cs | _ \<Rightarrow> ''User'')"

definition forgot_ok :: response where
  "forgot_ok =
     json_response
       (Msg ''If your email is registered, you will receive a password reset link.'') 200"

definition forgot_failed :: response where
  "forgot_failed = json_response (Err ''Failed to process password reset request'') 500"

definition forgot_password_POST :: "env \<Rightarrow> request \<Rightarrow> state \<Rightarrow> response \<times> state" where
  "forgot_password_POST ev r st0 =
     (case createRateLimitMiddleware rateLimitConfigs_passwordReset ev r st0 of
        (Throws, st) \<Rightarrow> (forgot_failed, st)
      | (Returns (Some rateLimitResponse), st) \<Rightarrow> (rateLimitResponse, st)
      | (Returns None, st) \<Rightarrow>
          (case json_body r of
             None \<Rightarrow> (forgot_failed, st)
           | Some b \<Rightarrow>
               (case forgotPasswordSchema ev b of
                  None \<Rightarrow>
                    update_then
                      (json_response (ErrDetails ''Invalid input data'' SchemaIssues) 400)
                      forgot_failed st
                      (updateRateLimit (t_update ev) r rateLimitConfigs_passwordReset False st)
                | Some email \<Rightarrow>
                    (case find (\<lambda>u. user_email u = email) (users st) of
                       None \<Rightarrow>
                         update_then forgot_ok forgot_failed st
                           (updateRateLimit (t_update ev) r rateLimitConfigs_passwordReset
                              True st)
                     | Some user \<Rightarrow>
                         (let tok = rand_token ev;
                              expires = t_route ev + resetTokenExpiry ev * 1000
                          in if list_ex (\<lambda>t. vt_token t = tok) (verificationTokens st)
                             then (forgot_failed, st)
                             else
                               (let st1 = st\<lparr> verificationTokens :=
                                               verificationTokens st @
                                               [\<lparr> vt_identifier = user_id user,
                                                  vt_token = tok,
                                                  vt_expires = expires \<rparr>] \<rparr>
                                in if \<not> mail_ok ev
                                   then (forgot_failed, st1)
                                   else
                                     (let st2 = st1\<lparr> outbox := outbox st1 @
                                                  [\<lparr> mail_to = email,
                                                     mail_subject = ''Password Reset Request'',
                                                     mail_token = tok,
                                                     mail_userName =
                                                       name_or_User (user_name user) \<rparr>] \<rparr>
                                      in update_then forgot_ok forgot_failed st2
                                           (updateRateLimit (t_update ev) r
                                              rateLimitConfigs_passwordReset True st2))))))))"

subsection \<open>POST /api/auth/reset-password\<close>



section \<open>Notions used to state the properties\<close>

text \<open>The entry of a key is absent or its count is below the limit of the configuration.\<close>

definition below_limit :: "RateLimitConfig \<Rightarrow> string \<Rightarrow> state \<Rightarrow> bool" where
  "below_limit c k st =
     (case rateLimitStore st k of None \<Rightarrow> True | Some e \<Rightarrow> count e < maxAttempts c)"

text \<open>The lookup \<open>rateLimitStore[k]\<close>, and likewise \<open>failedLoginStore[k]\<close>, finds no own
  property and yields a number other than 0 and \<open>NaN\<close>: the case in which an assignment of
  the bookkeeping functions throws.\<close>

definition number_found :: "state \<Rightarrow> string \<Rightarrow> bool" where
  "number_found st k =
     (case inherited_value st k of Primitive (JInt n) \<Rightarrow> n \<noteq> 0 | _ \<Rightarrow> False)"

definition rateLimitStore_number :: "state \<Rightarrow> string \<Rightarrow> bool" where
  "rateLimitStore_number st k =
     (case rateLimitStore st k of Some e \<Rightarrow> False | None \<Rightarrow> number_found st k)"


text \<open>\<open>checkRateLimit\<close> called once for each pair of clock readings of a list, with no
  \<open>updateRateLimit\<close> in between.\<close>

text \<open>A forgot-password request whose body parses and passes the schema.\<close>

definition valid_forgot_request :: "env \<Rightarrow> request \<Rightarrow> bool" where
  "valid_forgot_request ev r =
     (case json_body r of
        None \<Rightarrow> False
      | Some b \<Rightarrow> (case forgotPasswordSchema ev b of None \<Rightarrow> False | Some e \<Rightarrow> True))"

text \<open>A sequence of forgot-password requests handled one after the other, each with its
  own outside values; the responses are collected in order.\<close>

fun forgot_password_run :: "(env \<times> request) list \<Rightarrow> state \<Rightarrow> response list \<times> state" where
  "forgot_password_run [] st = ([], st)"
| "forgot_password_run ((ev, r) # rest) st =
     (let (resp, st1) = forgot_password_POST ev r st;
          (resps, st2) = forgot_password_run rest st1
      in (resp # resps, st2))"

section \<open>Sample data\<close>

text \<open>A concrete environment, client, user table and token table on which the theorems
  below are instantiated. The sample e-mail check accepts a string that contains an
  at sign; the sample \<open>compare\<close> accepts the hash \<open>hash:\<close> followed by the password.\<close>

definition demo_env :: env where
  "demo_env =
     \<lparr> t_sweep = 1000, t_check = 1000, t_retry = 1000, t_retry_hdr = 1000,
       t_dsweep = 1000, t_delay = 1000, t_record = 1000, t_update = 1000,
       t_record_inner = 1000, t_update_inner = 1000,
       t_record_outer = 1000, t_update_outer = 1000,
       t_route = 1000, t_write = 1000,
       rand_token = ''tok-2'', new_id = ''u2'', hashed = ''hash:NewSecret123!'',
       email_ok = (\<lambda>s. CHR ''@'' \<in> set s),
       compare = (\<lambda>p h. h = ''hash:'' @ p),
       resetTokenExpiry = 86400, mail_ok = True \<rparr>"

definition demo_request :: "json \<Rightarrow> request" where
  "demo_request b =
     \<lparr> headers = [''x-forwarded-for'' \<mapsto> ''10.0.0.1''], json_body = Some b \<rparr>"

text \<open>A request whose forwarded-address header holds the given string.\<close>

definition request_from :: "string \<Rightarrow> json \<Rightarrow> request" where
  "request_from k b = \<lparr> headers = [''x-forwarded-for'' \<mapsto> k], json_body = Some b \<rparr>"

definition alice :: User where
  "alice =
     \<lparr> user_id = ''u1'', user_name = Some ''Alice'', user_email = ''alice@example.com'',
       user_password = ''hash:Secret123!'', user_emailVerified = None, user_image = None,
       user_createdAt = 0, user_updatedAt = 0 \<rparr>"

text \<open>Two token rows of the sample user: \<open>tok-1\<close> is live at time 1000, \<open>tok-0\<close> expired
  at time 10. Nothing has been written on \<open>Object.prototype\<close> or its functions.\<close>

definition demo_state :: state where
  "demo_state =
     \<lparr> rateLimitStore = Map.empty, failedLoginStore = Map.empty,
       proto_props = no_props, fn_props = (\<lambda>f. no_props),
       users = [alice],
       verificationTokens =
         [\<lparr> vt_identifier = ''u1'', vt_token = ''tok-1'', vt_expires = 5000 \<rparr>,
          \<lparr> vt_identifier = ''u1'', vt_token = ''tok-0'', vt_expires = 10 \<rparr>],
       outbox = [] \<rparr>"



definition login_body :: "string \<Rightarrow> string \<Rightarrow> json" where
  "login_body e p = JObj [(''email'', JStr e), (''password'', JStr p)]"

definition forgot_body :: "string \<Rightarrow> json" where
  "forgot_body e = JObj [(''email'', JStr e)]"

definition register_body :: "string \<Rightarrow> string \<Rightarrow> string \<Rightarrow> json" where
  "register_body n e p =
     JObj [(''name'', JStr n), (''email'', JStr e), (''password'', JStr p)]"

text \<open>The sample client with four failed logins, the last one at time 0.\<close>

definition stale_login_state :: state where
  "stale_login_state =
     demo_state\<lparr> failedLoginStore :=
       [''10.0.0.1'' \<mapsto> \<lparr> attempts = 4, lastAttempt = 0, nextAllowedAt = 8000 \<rparr>] \<rparr>"

text \<open>The sample environment with a mail transport that refuses the message, and the
  sample state without the registered user.\<close>

definition mail_down_env :: env where
  "mail_down_env = demo_env\<lparr> mail_ok := False \<rparr>"

definition unregistered_state :: state where
  "unregistered_state = demo_state\<lparr> users := [] \<rparr>"

text \<open>Four valid forgot-password requests of the sample client, one more than the
  limit of the password-reset configuration.\<close>

definition demo_forgot_requests :: "(env \<times> request) list" where
  "demo_forgot_requests =
     [(demo_env, demo_request (forgot_body ''alice@example.com'')),
      (demo_env\<lparr> rand_token := ''tok-3'' \<rparr>, demo_request (forgot_body ''alice@example.com'')),
      (demo_env, demo_request (forgot_body ''nobody@example.com'')),
      (mail_down_env, demo_request (forgot_body ''alice@example.com''))]"

text \<open>The sample environment with every clock reading at time 40000.\<close>

definition later_env :: env where
  "later_env =
     demo_env\<lparr> t_sweep := 40000, t_check := 40000, t_retry := 40000, t_retry_hdr := 40000,
               t_dsweep := 40000, t_delay := 40000, t_record := 40000, t_update := 40000,
               t_record_inner := 40000, t_update_inner := 40000,
               t_record_outer := 40000, t_update_outer := 40000,
               t_route := 40000, t_write := 40000 \<rparr>"

text \<open>The sample state after one rejected login, at time 1000, of a client whose
  forwarded-address header holds \<open>__proto__\<close>: the bookkeeping of that request was written
  on \<open>Object.prototype\<close>.\<close>

definition polluted_state :: state where
  "polluted_state =
     demo_state\<lparr> proto_props :=
       \<lparr> p_count = WrittenNaN, p_failedAttempts = WrittenNaN,
         p_lastFailedAt = JNum (JInt 1000), p_attempts = JNum JNaN,
         p_lastAttempt = JNum (JInt 1000), p_nextAllowedAt = JNum (JInt 31000) \<rparr> \<rparr>"

text \<open>What a bookkeeping call from the client \<open>constructor\<close> leaves on the function
  \<open>Object\<close>, on the sample state: after \<open>updateRateLimit\<close> with \<open>success = false\<close>, and after
  \<open>recordFailedLogin\<close>, both at time 1000.\<close>

definition updated_constructor_state :: state where
  "updated_constructor_state =
     demo_state\<lparr> fn_props := (\<lambda>f. if f = ''constructor''
                                  then no_props\<lparr> p_count := WrittenNaN,
                                                 p_failedAttempts := WrittenNaN,
                                                 p_lastFailedAt := JNum (JInt 1000) \<rparr>
                                  else no_props) \<rparr>"

definition recorded_constructor_state :: state where
  "recorded_constructor_state =
     demo_state\<lparr> fn_props := (\<lambda>f. if f = ''constructor''
                                  then no_props\<lparr> p_attempts := JNum JNaN,
                                                 p_lastAttempt := JNum (JInt 1000),
                                                 p_nextAllowedAt := JNum (JInt 31000) \<rparr>
                                  else no_props) \<rparr>"

section \<open>Facts about the rate limiter and the handlers\<close>

lemma demo_default_key: "defaultKeyGenerator (demo_request b) = ''10.0.0.1''"
  by (simp add: defaultKeyGenerator_def demo_request_def)

lemma request_from_key: "k \<noteq> [] \<Longrightarrow> defaultKeyGenerator (request_from k b) = k"
  by (cases k) (simp_all add: defaultKeyGenerator_def request_from_def)

lemma keyOf_configs [simp]:
  "keyOf rateLimitConfigs_passwordReset r = defaultKeyGenerator r"
  "keyOf rateLimitConfigs_login r = defaultKeyGenerator r"
  "keyOf rateLimitConfigs_auth r = defaultKeyGenerator r"
  by (simp_all add: keyOf_def rateLimitConfigs_passwordReset_def rateLimitConfigs_login_def
        rateLimitConfigs_auth_def)

lemma config_flags [simp]:
  "flag (skipSuccessfulRequests rateLimitConfigs_passwordReset)"
  "\<not> flag (skipFailedRequests rateLimitConfigs_passwordReset)"
  "maxAttempts rateLimitConfigs_passwordReset = 3"
  "flag (skipSuccessfulRequests rateLimitConfigs_login)"
  "\<not> flag (skipFailedRequests rateLimitConfigs_login)"
  "maxAttempts rateLimitConfigs_login = 5"
  "flag (skipSuccessfulRequests rateLimitConfigs_auth)"
  "\<not> flag (skipFailedRequests rateLimitConfigs_auth)"
  "maxAttempts rateLimitConfigs_auth = 5"
  by (simp_all add: rateLimitConfigs_passwordReset_def rateLimitConfigs_login_def
        rateLimitConfigs_auth_def flag_def)

lemma int_of_simps [simp]:
  "int_of Undefined = None" "int_of (JNum (JInt n)) = Some n" "int_of (JNum JNaN) = None"
  by (simp_all add: int_of_def)


lemma read_prop_cong:
  assumes "proto_props s = proto_props s'" "fn_props s = fn_props s'"
  shows "read_prop s v f = read_prop s' v f"
  unfolding read_prop_def assms ..

lemma cleanup_tables [simp]:
  "users (cleanupExpiredEntries n st) = users st"
  "verificationTokens (cleanupExpiredEntries n st) = verificationTokens st"
  "outbox (cleanupExpiredEntries n st) = outbox st"
  "proto_props (cleanupExpiredEntries n st) = proto_props st"
  "fn_props (cleanupExpiredEntries n st) = fn_props st"
  by (simp_all add: cleanupExpiredEntries_def)

lemma cleanup_stores:
  "rateLimitStore (cleanupExpiredEntries n st) k =
     (case rateLimitStore st k of
        None \<Rightarrow> None
      | Some e \<Rightarrow> if n > resetAt e then None else Some e)"
  "failedLoginStore (cleanupExpiredEntries n st) k =
     (case failedLoginStore st k of
        None \<Rightarrow> None
      | Some e \<Rightarrow> if n - lastAttempt e > 24 * 60 * 60 * 1000 then None else Some e)"
  by (simp_all add: cleanupExpiredEntries_def)

lemma cleanup_read [simp]:
  "read_prop (cleanupExpiredEntries n st) v f = read_prop st v f"
  by (rule read_prop_cong) simp_all

lemma cleanup_inherited [simp]:
  "inherited_value (cleanupExpiredEntries n st) k = inherited_value st k"
  by (simp add: inherited_value_def)

lemma check_tables [simp]:
  "users (snd (checkRateLimit n0 n r c st)) = users st"
  "verificationTokens (snd (checkRateLimit n0 n r c st)) = verificationTokens st"
  "outbox (snd (checkRateLimit n0 n r c st)) = outbox st"
  "proto_props (snd (checkRateLimit n0 n r c st)) = proto_props st"
  "fn_props (snd (checkRateLimit n0 n r c st)) = fn_props st"
  by (simp_all add: checkRateLimit_def Let_def split: option.splits)

lemma check_inherited [simp]:
  "inherited_value (snd (checkRateLimit n0 n r c st)) k = inherited_value st k"
  by (simp add: inherited_value_def)

text \<open>The own entry of the key after a check.\<close>

lemma check_store:
  "rateLimitStore (snd (checkRateLimit now0 now r config st)) (keyOf config r) =
     (case rateLimitStore st (keyOf config r) of
        Some e \<Rightarrow>
          if now0 > resetAt e \<and> truthy (inherited_value st (keyOf config r)) then None
          else if now0 > resetAt e \<or> now > resetAt e
          then Some \<lparr> count = 0, resetAt = now + windowMs config, failedAttempts = 0,
                      lastFailedAt = None \<rparr>
          else Some e
      | None \<Rightarrow>
          if truthy (inherited_value st (keyOf config r)) then None
          else Some \<lparr> count = 0, resetAt = now + windowMs config, failedAttempts = 0,
                      lastFailedAt = None \<rparr>)"
  by (simp add: checkRateLimit_def cleanup_stores Let_def split: option.splits)

lemma check_result_own:
  "rateLimitStore (snd (checkRateLimit now0 now r config st)) (keyOf config r) = Some e' \<Longrightarrow>
     fst (checkRateLimit now0 now r config st) =
       \<lparr> isLimited = (count e' \<ge> maxAttempts config),
         remaining = JInt (max 0 (maxAttempts config - count e')),
         resetAt_r = JNum (JInt (resetAt e')) \<rparr>"
  by (auto simp: checkRateLimit_def cleanup_stores Let_def
        split: option.splits if_splits)

lemma check_result_inherited:
  "rateLimitStore (snd (checkRateLimit now0 now r config st)) (keyOf config r) = None \<Longrightarrow>
     resetAt_r (fst (checkRateLimit now0 now r config st)) = Undefined"
  by (auto simp: checkRateLimit_def cleanup_stores Let_def
        split: option.splits if_splits)

lemma middleware_snd:
  "snd (createRateLimitMiddleware c ev r st) = snd (checkRateLimit (t_sweep ev) (t_check ev) r c st)"
  by (simp add: createRateLimitMiddleware_def case_prod_beta split: option.splits)

lemma middleware_fst:
  "fst (createRateLimitMiddleware c ev r st) =
     (let res = fst (checkRateLimit (t_sweep ev) (t_check ev) r c st) in
      if isLimited res
      then (case int_of (resetAt_r res) of
              None \<Rightarrow> Throws
            | Some reset \<Rightarrow>
                Returns (Some
                   \<lparr> status = 429,
                     body = ErrCode ''Too many requests. Please try again later.''
                              ''RATE_LIMIT_EXCEEDED'' (ceil_div_1000 (reset - t_retry ev)),
                     resp_headers =
                       [(''X-RateLimit-Limit'', HNum (JInt (maxAttempts c))),
                        (''X-RateLimit-Remaining'', HNum (remaining res)),
                        (''X-RateLimit-Reset'', HDate reset),
                        (''Retry-After'',
                           HNum (JInt (ceil_div_1000 (reset - t_retry_hdr ev))))] \<rparr>))
      else Returns None)"
  by (simp add: createRateLimitMiddleware_def case_prod_beta Let_def split: option.splits)

lemma middleware_tables [simp]:
  "users (snd (createRateLimitMiddleware c ev r st)) = users st"
  "verificationTokens (snd (createRateLimitMiddleware c ev r st)) = verificationTokens st"
  "outbox (snd (createRateLimitMiddleware c ev r st)) = outbox st"
  "proto_props (snd (createRateLimitMiddleware c ev r st)) = proto_props st"
  "fn_props (snd (createRateLimitMiddleware c ev r st)) = fn_props st"
  "inherited_value (snd (createRateLimitMiddleware c ev r st)) k = inherited_value st k"
  by (simp_all add: middleware_snd)

lemma check_inherited_unlimited:
  "rateLimitStore (snd (checkRateLimit now0 now r config st)) (keyOf config r) = None \<Longrightarrow>
     \<not> isLimited (fst (checkRateLimit now0 now r config st))"
  by (auto simp: checkRateLimit_def cleanup_stores Let_def read_prop_def counter_value_def
        split: option.splits if_splits inherited.splits counter.splits)

lemma middleware_never_throws: "fst (createRateLimitMiddleware c ev r st) \<noteq> Throws"
proof (cases "rateLimitStore (snd (checkRateLimit (t_sweep ev) (t_check ev) r c st)) (keyOf c r)")
  case None
  from check_inherited_unlimited[OF None] show ?thesis
    by (simp add: middleware_fst)
next
  case (Some e)
  from check_result_own[OF Some] show ?thesis
    by (simp add: middleware_fst Let_def)
qed

lemma below_limit_gate:
  assumes "below_limit c (keyOf c r) st" "0 < maxAttempts c"
  shows "fst (createRateLimitMiddleware c ev r st) = Returns None"
proof (cases "rateLimitStore (snd (checkRateLimit (t_sweep ev) (t_check ev) r c st)) (keyOf c r)")
  case None
  from check_inherited_unlimited[OF None] show ?thesis
    by (simp add: middleware_fst)
next
  case (Some e)
  from Some assms have "count e < maxAttempts c"
    by (auto simp: below_limit_def check_store split: option.splits if_splits)
  with check_result_own[OF Some] show ?thesis
    by (simp add: middleware_fst Let_def)
qed


text \<open>A rejection by the gate comes from an own entry at or above the limit.\<close>

lemma middleware_Some_entry:
  assumes "fst (createRateLimitMiddleware c ev r st) = Returns (Some resp)"
  shows "\<exists>e. rateLimitStore (snd (createRateLimitMiddleware c ev r st)) (keyOf c r) = Some e \<and>
             count e \<ge> maxAttempts c"
proof (cases "rateLimitStore (snd (checkRateLimit (t_sweep ev) (t_check ev) r c st)) (keyOf c r)")
  case None
  from check_result_inherited[OF None] assms show ?thesis
    by (auto simp: middleware_fst Let_def split: if_splits)
next
  case (Some e)
  from check_result_own[OF Some] assms Some show ?thesis
    by (auto simp: middleware_fst middleware_snd Let_def split: if_splits)
qed



lemma gate_keeps_below_limit:
  "below_limit c (keyOf c r) st \<Longrightarrow> 0 < maxAttempts c \<Longrightarrow>
   below_limit c (keyOf c r) (snd (createRateLimitMiddleware c ev r st))"
  by (auto simp: below_limit_def middleware_snd check_store split: option.splits)

lemma gate_store_count:
  "rateLimitStore (snd (createRateLimitMiddleware c ev r st)) (keyOf c r) = Some e' \<Longrightarrow>
     count e' = 0 \<or> (\<exists>e. rateLimitStore st (keyOf c r) = Some e \<and> count e' = count e)"
  by (auto simp: middleware_snd check_store split: option.splits if_splits)



lemma update_success_skipped:
  "flag (skipSuccessfulRequests c) \<Longrightarrow> updateRateLimit n r c True st = Some st"
  by (auto simp: updateRateLimit_def Let_def map_upd_triv split: option.splits)


lemma update_failure_own:
  "rateLimitStore st (keyOf c r) = Some e \<Longrightarrow> \<not> flag (skipFailedRequests c) \<Longrightarrow>
   updateRateLimit n r c False st =
     Some (st\<lparr> rateLimitStore := (rateLimitStore st)(keyOf c r \<mapsto>
             e\<lparr> count := count e + 1, failedAttempts := failedAttempts e + 1,
                lastFailedAt := Some n \<rparr>) \<rparr>)"
  by (simp add: updateRateLimit_def Let_def)







lemma clear_tables [simp]:
  "users (clearFailedLogins r st) = users st"
  "verificationTokens (clearFailedLogins r st) = verificationTokens st"
  "outbox (clearFailedLogins r st) = outbox st"
  "rateLimitStore (clearFailedLogins r st) = rateLimitStore st"
  "proto_props (clearFailedLogins r st) = proto_props st"
  "fn_props (clearFailedLogins r st) = fn_props st"
  "failedLoginStore (clearFailedLogins r st) (defaultKeyGenerator r) = None"
  by (simp_all add: clearFailedLogins_def)

lemma update_then_simps [simp]:
  "update_then ok failed st (Some st') = (ok, st')"
  "update_then ok failed st None = (failed, st)"
  by (simp_all add: update_then_def)






lemma number_tables [simp]:
  "rateLimitStore_number (st\<lparr> verificationTokens := ts \<rparr>) k = rateLimitStore_number st k"
  "rateLimitStore_number (st\<lparr> users := us \<rparr>) k = rateLimitStore_number st k"
  "rateLimitStore_number (st\<lparr> outbox := ms \<rparr>) k = rateLimitStore_number st k"
  by (simp_all add: rateLimitStore_number_def number_found_def inherited_value_def
        split: option.splits)


lemma forgot_limited:
  "fst (createRateLimitMiddleware rateLimitConfigs_passwordReset ev r st) = Returns (Some resp) \<Longrightarrow>
   forgot_password_POST ev r st =
     (resp, snd (createRateLimitMiddleware rateLimitConfigs_passwordReset ev r st))"
  by (simp add: forgot_password_POST_def case_prod_beta)

lemma forgot_unregistered:
  assumes "fst (createRateLimitMiddleware rateLimitConfigs_passwordReset ev r st) = Returns None"
      and "json_body r = Some b" "forgotPasswordSchema ev b = Some email"
      and "find (\<lambda>u. user_email u = email) (users st) = None"
  shows "forgot_password_POST ev r st =
     (forgot_ok, snd (createRateLimitMiddleware rateLimitConfigs_passwordReset ev r st))"
  using assms by (simp add: forgot_password_POST_def case_prod_beta update_success_skipped)

lemma forgot_registered:
  assumes "fst (createRateLimitMiddleware rateLimitConfigs_passwordReset ev r st) = Returns None"
      and "json_body r = Some b" "forgotPasswordSchema ev b = Some email"
      and "find (\<lambda>u. user_email u = email) (users st) = Some u"
  shows "forgot_password_POST ev r st =
     (let g = snd (createRateLimitMiddleware rateLimitConfigs_passwordReset ev r st);
          g1 = g\<lparr> verificationTokens := verificationTokens st @
                     [\<lparr> vt_identifier = user_id u, vt_token = rand_token ev,
                        vt_expires = t_route ev + resetTokenExpiry ev * 1000 \<rparr>] \<rparr>
      in if list_ex (\<lambda>t. vt_token t = rand_token ev) (verificationTokens st)
         then (forgot_failed, g)
         else if \<not> mail_ok ev
         then (forgot_failed, g1)
         else (forgot_ok,
               g1\<lparr> outbox := outbox st @
                       [\<lparr> mail_to = email, mail_subject = ''Password Reset Request'',
                          mail_token = rand_token ev,
                          mail_userName = name_or_User (user_name u) \<rparr>] \<rparr>))"
  using assms
  by (simp add: forgot_password_POST_def case_prod_beta Let_def update_success_skipped)

lemma forgot_valid_step:
  assumes v: "valid_forgot_request ev r"
      and bl: "below_limit rateLimitConfigs_passwordReset (defaultKeyGenerator r) st"
  shows "status (fst (forgot_password_POST ev r st)) \<noteq> 429"
    and "rateLimitStore (snd (forgot_password_POST ev r st)) =
           rateLimitStore (snd (createRateLimitMiddleware rateLimitConfigs_passwordReset ev r st))"
proof -
  let ?cfg = rateLimitConfigs_passwordReset
  from v obtain b email where body: "json_body r = Some b" "forgotPasswordSchema ev b = Some email"
    by (auto simp: valid_forgot_request_def split: option.splits)
  have g: "fst (createRateLimitMiddleware ?cfg ev r st) = Returns None"
    by (rule below_limit_gate) (use bl in simp_all)
  show "status (fst (forgot_password_POST ev r st)) \<noteq> 429"
  proof (cases "find (\<lambda>u. user_email u = email) (users st)")
    case None
    from forgot_unregistered[OF g body None] show ?thesis
      by (simp add: forgot_ok_def json_response_def)
  next
    case (Some u)
    from forgot_registered[OF g body Some] show ?thesis
      by (simp add: forgot_ok_def forgot_failed_def json_response_def Let_def)
  qed
  show "rateLimitStore (snd (forgot_password_POST ev r st)) =
           rateLimitStore (snd (createRateLimitMiddleware ?cfg ev r st))"
  proof (cases "find (\<lambda>u. user_email u = email) (users st)")
    case None
    from forgot_unregistered[OF g body None] show ?thesis by simp
  next
    case (Some u)
    from forgot_registered[OF g body Some] show ?thesis by (simp add: Let_def)
  qed
qed

lemma register_rejected:
  assumes "fst (createRateLimitMiddleware rateLimitConfigs_auth ev r st) = Returns None"
      and "json_body r = Some b"
  shows "registerSchema ev b = None \<Longrightarrow>
           register_POST ev r st =
             (json_response (ErrDetails ''Invalid input data'' SchemaIssues) 400,
              snd (createRateLimitMiddleware rateLimitConfigs_auth ev r st))"
    and "registerSchema ev b = Some d \<Longrightarrow> validatePasswordStrength (rd_password d) \<noteq> [] \<Longrightarrow>
           register_POST ev r st =
             (json_response
                (ErrDetails ''Password does not meet security requirements''
                   (PasswordIssues (validatePasswordStrength (rd_password d)))) 400,
              snd (createRateLimitMiddleware rateLimitConfigs_auth ev r st))"
    and "registerSchema ev b = Some d \<Longrightarrow> validatePasswordStrength (rd_password d) = [] \<Longrightarrow>
         find (\<lambda>u. user_email u = rd_email d) (users st) = Some u \<Longrightarrow>
           register_POST ev r st =
             update_then (json_response (Err ''Email already registered'') 409) register_failed
               (snd (createRateLimitMiddleware rateLimitConfigs_auth ev r st))
               (updateRateLimit (t_update ev) r rateLimitConfigs_auth False
                 (snd (createRateLimitMiddleware rateLimitConfigs_auth ev r st)))"
  using assms by (simp_all add: register_POST_def case_prod_beta Let_def)

lemma middleware_fst_store_cong:
  assumes "rateLimitStore s = rateLimitStore s'" "0 < maxAttempts c"
  shows "fst (createRateLimitMiddleware c ev r s) = fst (createRateLimitMiddleware c ev r s')"
proof -
  have cl: "rateLimitStore (cleanupExpiredEntries n s) k = rateLimitStore (cleanupExpiredEntries n s') k"
    for n k
    by (simp add: cleanup_stores assms(1))
  have nl: "int_of (read_prop st v (\<lambda>p. counter_value (p_count p))) = None" for st v
    by (auto simp: read_prop_def counter_value_def split: inherited.splits counter.splits)
  have "fst (checkRateLimit n0 n r c s) = fst (checkRateLimit n0 n r c s') \<or>
        (\<not> isLimited (fst (checkRateLimit n0 n r c s)) \<and>
         \<not> isLimited (fst (checkRateLimit n0 n r c s')))" for n0 n
    using assms(2) cl[of n0 "keyOf c r"]
    by (auto simp: checkRateLimit_def Let_def nl split: option.splits)
  from this[of "t_sweep ev" "t_check ev"]
  consider (same) "fst (checkRateLimit (t_sweep ev) (t_check ev) r c s) =
                   fst (checkRateLimit (t_sweep ev) (t_check ev) r c s')"
    | (unlimited) "\<not> isLimited (fst (checkRateLimit (t_sweep ev) (t_check ev) r c s))"
                  "\<not> isLimited (fst (checkRateLimit (t_sweep ev) (t_check ev) r c s'))"
    by blast
  then show ?thesis
  proof cases
    case same
    show ?thesis unfolding middleware_fst same ..
  next
    case unlimited
    then show ?thesis by (simp add: middleware_fst Let_def)
  qed
qed

lemma delay_snd:
  "snd (createLoginDelayMiddleware ev r st) = cleanupExpiredEntries (t_dsweep ev) st"
  by (simp add: createLoginDelayMiddleware_def checkLoginDelay_def case_prod_beta Let_def
        split: option.splits)

lemma delay_tables [simp]:
  "users (snd (createLoginDelayMiddleware ev r st)) = users st"
  "verificationTokens (snd (createLoginDelayMiddleware ev r st)) = verificationTokens st"
  "outbox (snd (createLoginDelayMiddleware ev r st)) = outbox st"
  "proto_props (snd (createLoginDelayMiddleware ev r st)) = proto_props st"
  "fn_props (snd (createLoginDelayMiddleware ev r st)) = fn_props st"
  "inherited_value (snd (createLoginDelayMiddleware ev r st)) k = inherited_value st k"
  by (simp_all add: delay_snd)

lemma login_failure:
  assumes "fst (createRateLimitMiddleware rateLimitConfigs_login ev r st0) = Returns None"
      and "fst (createLoginDelayMiddleware ev r
                 (snd (createRateLimitMiddleware rateLimitConfigs_login ev r st0))) = None"
      and "json_body r = Some b" "loginSchema ev b = Some d"
      and "find (\<lambda>u. user_email u = ld_email d) (users st0) = None \<or>
           (\<exists>u. find (\<lambda>u. user_email u = ld_email d) (users st0) = Some u \<and>
                \<not> compare ev (ld_password d) (user_password u))"
  shows "login_POST ev r st0 =
           record_failure (t_record ev) (t_update ev) r
             (json_response (Err ''Invalid email or password'') 401)
             (login_inner_catch ev r)
             (snd (createLoginDelayMiddleware ev r
                     (snd (createRateLimitMiddleware rateLimitConfigs_login ev r st0))))"
  using assms
  by (auto simp: login_POST_def case_prod_beta Let_def)




lemma sample_bodies [simp]:
  "json_body (demo_request b) = Some b" "json_body (request_from k b) = Some b"
  by (simp_all add: demo_request_def request_from_def)

lemma sample_keys [simp]:
  "defaultKeyGenerator (demo_request b) = ''10.0.0.1''"
  "defaultKeyGenerator (request_from ''constructor'' b) = ''constructor''"
  "defaultKeyGenerator (request_from ''__proto__'' b) = ''__proto__''"
  "defaultKeyGenerator (request_from ''lastFailedAt'' b) = ''lastFailedAt''"
  "defaultKeyGenerator (request_from ''lastAttempt'' b) = ''lastAttempt''"
  by (simp_all add: demo_default_key request_from_key)



lemma demo_email_ok:
  "email_ok demo_env ''alice@example.com''" "email_ok demo_env ''nobody@example.com''"
  "email_ok mail_down_env ''alice@example.com''"
  "email_ok later_env ''alice@example.com''"
  "\<not> email_ok demo_env ''invalid-email''"
  by (simp_all add: demo_env_def mail_down_env_def later_env_def)

lemma demo_forgot_schema:
  "forgotPasswordSchema ev (forgot_body e) = (if email_ok ev e then Some e else None)"
  by (simp add: forgotPasswordSchema_def forgot_body_def str_field_def)

lemma demo_login_schema:
  "loginSchema ev (login_body e p) =
     (if email_ok ev e \<and> p \<noteq> [] then Some \<lparr> ld_email = e, ld_password = p, ld_callbackUrl = None \<rparr>
      else None)"
  by (cases p) (simp_all add: loginSchema_def login_body_def str_field_def opt_str_field_def)

lemma demo_register_schema:
  "registerSchema ev (register_body n e p) =
     (if length n \<ge> 2 \<and> email_ok ev e \<and> length p \<ge> 8
      then Some \<lparr> rd_name = n, rd_email = e, rd_password = p \<rparr> else None)"
  by (simp add: registerSchema_def register_body_def str_field_def)

lemma sample_states [simp]:
  "rateLimitStore demo_state k = None" "failedLoginStore demo_state k = None"
  "proto_props demo_state = no_props" "fn_props demo_state f = no_props"
  "users demo_state = [alice]"
  "rateLimitStore polluted_state k = None" "failedLoginStore polluted_state k = None"
  "users polluted_state = [alice]"
  "verificationTokens polluted_state = verificationTokens demo_state"
  "rateLimitStore unregistered_state k = None" "users unregistered_state = []"
  "proto_props unregistered_state = no_props"
  "rateLimitStore stale_login_state k = None"
  "proto_props stale_login_state = no_props"
  "users stale_login_state = [alice]"
  by (simp_all add: demo_state_def polluted_state_def unregistered_state_def stale_login_state_def)




lemma plain_address:
  "proto_props st = no_props \<Longrightarrow> \<not> truthy (inherited_value st ''10.0.0.1'')"
  by (simp add: inherited_value_def builtin_functions_def prop_named_def no_props_def
        counter_value_def truthy_def)


lemma gate_absent:
  assumes "rateLimitStore st (keyOf c r) = None" "0 < maxAttempts c"
  shows "fst (createRateLimitMiddleware c ev r st) = Returns None"
    and "rateLimitStore (snd (createRateLimitMiddleware c ev r st)) (keyOf c r) =
           (if truthy (inherited_value st (keyOf c r)) then None
            else Some \<lparr> count = 0, resetAt = t_check ev + windowMs c, failedAttempts = 0,
                        lastFailedAt = None \<rparr>)"
proof -
  from assms show "fst (createRateLimitMiddleware c ev r st) = Returns None"
    by (intro below_limit_gate) (simp_all add: below_limit_def)
  from assms(1) show "rateLimitStore (snd (createRateLimitMiddleware c ev r st)) (keyOf c r) =
           (if truthy (inherited_value st (keyOf c r)) then None
            else Some \<lparr> count = 0, resetAt = t_check ev + windowMs c, failedAttempts = 0,
                        lastFailedAt = None \<rparr>)"
    by (simp add: middleware_snd check_store)
qed



lemma delay_gate:
  "(fst (createLoginDelayMiddleware ev r st) = None) =
     (case failedLoginStore (cleanupExpiredEntries (t_dsweep ev) st) (defaultKeyGenerator r) of
        Some e \<Rightarrow> \<not> t_delay ev < nextAllowedAt e
      | None \<Rightarrow>
          \<not> truthy (inherited_value st (defaultKeyGenerator r)) \<or>
          (case int_of (read_prop st (inherited_value st (defaultKeyGenerator r))
                          p_nextAllowedAt) of
             Some n \<Rightarrow> \<not> t_delay ev < n
           | None \<Rightarrow> True))"
  by (simp add: createLoginDelayMiddleware_def checkLoginDelay_def case_prod_beta Let_def
        split: option.splits)





lemma cleanup_sample [simp]:
  "cleanupExpiredEntries n demo_state = demo_state"
  "cleanupExpiredEntries n polluted_state = polluted_state"
  by (simp_all add: cleanupExpiredEntries_def demo_state_def polluted_state_def)

lemma checkRateLimit_plain_key:
  assumes "\<not> truthy (inherited_value st (keyOf config r))"
  shows "rateLimitStore (snd (checkRateLimit now0 now r config st)) (keyOf config r) =
           Some (case rateLimitStore st (keyOf config r) of
                   None \<Rightarrow> \<lparr> count = 0, resetAt = now + windowMs config, failedAttempts = 0,
                             lastFailedAt = None \<rparr>
                 | Some e \<Rightarrow>
                     if now0 > resetAt e \<or> now > resetAt e
                     then \<lparr> count = 0, resetAt = now + windowMs config, failedAttempts = 0,
                            lastFailedAt = None \<rparr>
                     else e)"
    and "\<exists>e'. rateLimitStore (snd (checkRateLimit now0 now r config st)) (keyOf config r) =
                 Some e' \<and>
               fst (checkRateLimit now0 now r config st) =
                 \<lparr> isLimited = (count e' \<ge> maxAttempts config),
                   remaining = JInt (max 0 (maxAttempts config - count e')),
                   resetAt_r = JNum (JInt (resetAt e')) \<rparr>"
proof -
  show s: "rateLimitStore (snd (checkRateLimit now0 now r config st)) (keyOf config r) =
           Some (case rateLimitStore st (keyOf config r) of
                   None \<Rightarrow> \<lparr> count = 0, resetAt = now + windowMs config, failedAttempts = 0,
                             lastFailedAt = None \<rparr>
                 | Some e \<Rightarrow>
                     if now0 > resetAt e \<or> now > resetAt e
                     then \<lparr> count = 0, resetAt = now + windowMs config, failedAttempts = 0,
                            lastFailedAt = None \<rparr>
                     else e)"
    using assms by (simp add: check_store split: option.splits)
  from check_result_own[OF s] s
  show "\<exists>e'. rateLimitStore (snd (checkRateLimit now0 now r config st)) (keyOf config r) =
                 Some e' \<and>
               fst (checkRateLimit now0 now r config st) =
                 \<lparr> isLimited = (count e' \<ge> maxAttempts config),
                   remaining = JInt (max 0 (maxAttempts config - count e')),
                   resetAt_r = JNum (JInt (resetAt e')) \<rparr>"
    by blast
qed

lemma updateRateLimit_plain_key:
  assumes "\<not> truthy (inherited_value st (keyOf config r))"
  shows "updateRateLimit now r config success st =
           Some (case rateLimitStore st (keyOf config r) of
                   None \<Rightarrow> st
                 | Some e \<Rightarrow>
                     st\<lparr> rateLimitStore := (rateLimitStore st)(keyOf config r \<mapsto>
                          e\<lparr> count :=
                               (if (success \<and> flag (skipSuccessfulRequests config)) \<or>
                                   (\<not> success \<and> flag (skipFailedRequests config))
                                then count e else count e + 1),
                             failedAttempts :=
                               (if success then failedAttempts e else failedAttempts e + 1),
                             lastFailedAt :=
                               (if success then lastFailedAt e else Some now) \<rparr>) \<rparr>)"
  using assms by (simp add: updateRateLimit_def Let_def split: option.splits)

lemma constructor_inherited [simp]:
  "inherited_value st ''constructor'' = BuiltinFunction ''constructor''"
  "inherited_value st ''__proto__'' = ProtoObject"
  by (simp_all add: inherited_value_def builtin_functions_def)

lemma later_env_times [simp]:
  "t_sweep later_env = 40000" "t_check later_env = 40000" "t_dsweep later_env = 40000"
  "t_delay later_env = 40000" "t_record later_env = 40000" "t_update later_env = 40000"
  "compare later_env = compare demo_env"
  by (simp_all add: later_env_def)

lemma demo_env_times [simp]:
  "t_sweep demo_env = 1000" "t_check demo_env = 1000" "t_dsweep demo_env = 1000"
  "t_delay demo_env = 1000" "t_record demo_env = 1000" "t_update demo_env = 1000"
  by (simp_all add: demo_env_def)


text \<open>The state \<open>polluted_state\<close> is the one a rejected login of the client \<open>__proto__\<close>
  leaves.\<close>

lemma polluted_state_reached:
  "login_POST demo_env (request_from ''__proto__'' (login_body ''alice@example.com'' ''wrong''))
     demo_state =
   (Returns (json_response (Err ''Invalid email or password'') 401), polluted_state)"
proof -
  let ?r = "request_from ''__proto__'' (login_body ''alice@example.com'' ''wrong'')"
  let ?cfg = rateLimitConfigs_login
  have absent: "rateLimitStore demo_state (keyOf ?cfg ?r) = None" by simp
  note gate = gate_absent[OF absent, of demo_env]
  have st1: "snd (createRateLimitMiddleware ?cfg demo_env ?r demo_state) = demo_state"
    by (simp add: middleware_snd checkRateLimit_def Let_def truthy_def)
  have g2: "fst (createLoginDelayMiddleware demo_env ?r
                   (snd (createRateLimitMiddleware ?cfg demo_env ?r demo_state))) = None"
    by (simp add: st1 delay_gate cleanup_stores read_prop_def no_props_def)
  have st2: "snd (createLoginDelayMiddleware demo_env ?r
                   (snd (createRateLimitMiddleware ?cfg demo_env ?r demo_state))) = demo_state"
    by (simp add: st1 delay_snd)
  have schema: "loginSchema demo_env (login_body ''alice@example.com'' ''wrong'') =
       Some \<lparr> ld_email = ''alice@example.com'', ld_password = ''wrong'', ld_callbackUrl = None \<rparr>"
    by (simp add: demo_login_schema demo_email_ok)
  have mismatch: "find (\<lambda>u. user_email u =
        ld_email \<lparr> ld_email = ''alice@example.com'', ld_password = ''wrong'',
                   ld_callbackUrl = None \<rparr>) (users demo_state) = None \<or>
     (\<exists>u. find (\<lambda>u. user_email u =
        ld_email \<lparr> ld_email = ''alice@example.com'', ld_password = ''wrong'',
                   ld_callbackUrl = None \<rparr>) (users demo_state) = Some u \<and>
          \<not> compare demo_env
              (ld_password \<lparr> ld_email = ''alice@example.com'', ld_password = ''wrong'',
                             ld_callbackUrl = None \<rparr>) (user_password u))"
    by (simp add: alice_def demo_env_def)
  have rec: "recordFailedLogin 1000 ?r demo_state =
     Some (demo_state\<lparr> proto_props :=
             no_props\<lparr> p_attempts := JNum JNaN, p_lastAttempt := JNum (JInt 1000),
                       p_nextAllowedAt := JNum (JInt 31000) \<rparr> \<rparr>)"
    by (simp add: recordFailedLogin_def Let_def truthy_def write_prop_def read_prop_def
          plus_one_def calculateProgressiveDelay_num_def no_props_def demo_state_def)
  have upd: "updateRateLimit 1000 ?r ?cfg False
       (demo_state\<lparr> proto_props :=
             no_props\<lparr> p_attempts := JNum JNaN, p_lastAttempt := JNum (JInt 1000),
                       p_nextAllowedAt := JNum (JInt 31000) \<rparr> \<rparr>) = Some polluted_state"
    by (simp add: updateRateLimit_def Let_def truthy_def write_prop_def no_props_def
          polluted_state_def demo_state_def)
  show ?thesis
    by (simp add: login_failure[OF gate(1) g2 sample_bodies(2) schema mismatch] st2
          record_failure_def rec upd)
qed

section \<open>Properties of the reset-token lifecycle\<close>







section \<open>Properties of the rate limiter\<close>

text \<open>
  Claim C2, evaluated at the key \<open>constructor\<close>. The sample state has no rate-limit entry
  for that key. A call of \<open>checkRateLimit\<close> with the login configuration, for a request
  whose forwarded-address header holds \<open>constructor\<close>, stores no entry: it returns the
  state as it was, with \<open>remaining = NaN\<close> and no \<open>resetAt\<close>, where an entry with
  count 0 gives \<open>remaining = 5\<close>. After \<open>updateRateLimit\<close> has recorded a failure of that
  client the result is the same: the count the call reads is \<open>NaN\<close>, and \<open>isLimited\<close> is
  false.
\<close>

theorem checkRateLimit_inherited_key:
  "rateLimitStore demo_state ''constructor'' = None \<and>
   checkRateLimit 1000 1000 (request_from ''constructor'' JNull) rateLimitConfigs_login
       demo_state =
     (\<lparr> isLimited = False, remaining = JNaN, resetAt_r = Undefined \<rparr>, demo_state) \<and>
   checkRateLimit 2000 2000 (request_from ''constructor'' JNull) rateLimitConfigs_login
       updated_constructor_state =
     (\<lparr> isLimited = False, remaining = JNaN, resetAt_r = Undefined \<rparr>,
      updated_constructor_state)"
proof -
  have c: "cleanupExpiredEntries n updated_constructor_state = updated_constructor_state" for n
    by (simp add: cleanupExpiredEntries_def updated_constructor_state_def demo_state_def)
  have u: "rateLimitStore updated_constructor_state k = None"
    "proto_props updated_constructor_state = no_props"
    "fn_props updated_constructor_state ''constructor'' =
       no_props\<lparr> p_count := WrittenNaN, p_failedAttempts := WrittenNaN,
                 p_lastFailedAt := JNum (JInt 1000) \<rparr>" for k
    by (simp_all add: updated_constructor_state_def)
  have a: "checkRateLimit 1000 1000 (request_from ''constructor'' JNull) rateLimitConfigs_login
       demo_state =
     (\<lparr> isLimited = False, remaining = JNaN, resetAt_r = Undefined \<rparr>, demo_state)"
    by (simp add: checkRateLimit_def Let_def truthy_def read_prop_def no_props_def
          counter_value_def)
  have b: "checkRateLimit 2000 2000 (request_from ''constructor'' JNull) rateLimitConfigs_login
       updated_constructor_state =
     (\<lparr> isLimited = False, remaining = JNaN, resetAt_r = Undefined \<rparr>,
      updated_constructor_state)"
    by (simp add: checkRateLimit_def Let_def truthy_def read_prop_def no_props_def
          counter_value_def c u)
  from a b show ?thesis by simp
qed

text \<open>
  Claim C5, evaluated at the key \<open>constructor\<close>. The sample state has no rate-limit entry
  for that key, and \<open>updateRateLimit\<close> with \<open>success = false\<close>, for a request whose
  forwarded-address header holds \<open>constructor\<close>, changes the state: it leaves
  \<open>count = NaN\<close>, \<open>failedAttempts = NaN\<close> and \<open>lastFailedAt = 1000\<close> on the function
  \<open>Object\<close>.
\<close>

theorem updateRateLimit_inherited_key:
  "rateLimitStore demo_state ''constructor'' = None \<and>
   updateRateLimit 1000 (request_from ''constructor'' JNull) rateLimitConfigs_login False
       demo_state = Some updated_constructor_state \<and>
   updated_constructor_state \<noteq> demo_state"
proof -
  have a: "updateRateLimit 1000 (request_from ''constructor'' JNull) rateLimitConfigs_login False
       demo_state = Some updated_constructor_state"
    by (simp add: updateRateLimit_def Let_def truthy_def write_prop_def
          updated_constructor_state_def demo_state_def fun_eq_iff)
  have "fn_props updated_constructor_state ''constructor'' \<noteq> fn_props demo_state ''constructor''"
    by (simp add: updated_constructor_state_def no_props_def)
  then have "updated_constructor_state \<noteq> demo_state" by auto
  with a show ?thesis by simp
qed

text \<open>
  Claim C6. \<open>calculateProgressiveDelay\<close> equals the reference table at every integer:
  0 for \<open>attempts \<le> 0\<close>; 1000, 2000, 4000, 8000, 16000 for 1 to 5 attempts; 30000 beyond.
\<close>

theorem calculateProgressiveDelay_table: "calculateProgressiveDelay n = delay_table n"
proof -
  consider "n \<le> 0" | "n = 1" | "n = 2" | "n = 3" | "n = 4" | "n = 5" | "n > 5" by linarith
  then show ?thesis
    by cases (simp_all add: calculateProgressiveDelay_def delay_table_def eval_nat_numeral)
qed

text \<open>
  Claim C7, evaluated at the key \<open>constructor\<close>. The sample state has no failed-login
  entry for that key. \<open>recordFailedLogin\<close> at time 1000, for a request whose
  forwarded-address header holds \<open>constructor\<close>, creates no entry; it leaves
  \<open>attempts = NaN\<close>, \<open>lastAttempt = 1000\<close> and \<open>nextAllowedAt = 31000\<close> on the function
  \<open>Object\<close>, where a first failure gives one attempt and \<open>nextAllowedAt = 2000\<close>; and
  \<open>checkLoginDelay\<close> at time 2000 reports a delay of 29000 ms.
\<close>

theorem recordFailedLogin_inherited_key:
  "failedLoginStore demo_state ''constructor'' = None \<and>
   recordFailedLogin 1000 (request_from ''constructor'' JNull) demo_state =
     Some recorded_constructor_state \<and>
   failedLoginStore recorded_constructor_state ''constructor'' = None \<and>
   fn_props recorded_constructor_state ''constructor'' =
     no_props\<lparr> p_attempts := JNum JNaN, p_lastAttempt := JNum (JInt 1000),
               p_nextAllowedAt := JNum (JInt 31000) \<rparr> \<and>
   fst (checkLoginDelay 2000 2000 (request_from ''constructor'' JNull)
          recorded_constructor_state) =
     \<lparr> isDelayed = True, delayMs = 29000, nextAllowedAt_r = 31000 \<rparr>"
proof -
  have u: "failedLoginStore recorded_constructor_state k = None"
    "proto_props recorded_constructor_state = no_props"
    "fn_props recorded_constructor_state ''constructor'' =
       no_props\<lparr> p_attempts := JNum JNaN, p_lastAttempt := JNum (JInt 1000),
                 p_nextAllowedAt := JNum (JInt 31000) \<rparr>" for k
    by (simp_all add: recorded_constructor_state_def)
  have a: "recordFailedLogin 1000 (request_from ''constructor'' JNull) demo_state =
     Some recorded_constructor_state"
    by (simp add: recordFailedLogin_def Let_def truthy_def write_prop_def read_prop_def
          plus_one_def calculateProgressiveDelay_num_def no_props_def
          recorded_constructor_state_def demo_state_def fun_eq_iff)
  have b: "fst (checkLoginDelay 2000 2000 (request_from ''constructor'' JNull)
          recorded_constructor_state) =
     \<lparr> isDelayed = True, delayMs = 29000, nextAllowedAt_r = 31000 \<rparr>"
    by (simp add: checkLoginDelay_def Let_def cleanup_stores truthy_def read_prop_def u
          no_props_def)
  from a b u show ?thesis by simp
qed

section \<open>Properties of the login, forgot-password and registration handlers\<close>




text \<open>
  Claim C3 (anti-enumeration), as the code has it. Take a forgot-password request with a
  valid e-mail address (one the schema accepts) and two states with the same rate-limit store, the
  address registered in the first and not in the second. In the second state a request that
  passes the rate-limit gate is answered with the generic 200 message, and no token row is
  written and no mail is sent. In the first state, provided the generated token is not
  already in the table and the mail transport accepts the message, the response is identical
  to the one in the second state, and a request that passes the gate adds exactly one token
  row and sends exactly one mail. If the token insert or the mail transport fails, a request
  that passes the gate is answered with 500 ``Failed to process password reset request''
  in the first state.
\<close>

theorem forgot_password_anti_enumeration:
  assumes body: "json_body r = Some b" "forgotPasswordSchema ev b = Some email"
      and same_limiter: "rateLimitStore s = rateLimitStore s'"
      and reg: "find (\<lambda>u. user_email u = email) (users s) = Some u"
      and unreg: "find (\<lambda>u. user_email u = email) (users s') = None"
  shows "(fst (createRateLimitMiddleware rateLimitConfigs_passwordReset ev r s') = Returns None \<longrightarrow>
            fst (forgot_password_POST ev r s') = forgot_ok) \<and>
         verificationTokens (snd (forgot_password_POST ev r s')) = verificationTokens s' \<and>
         outbox (snd (forgot_password_POST ev r s')) = outbox s' \<and>
         (\<not> list_ex (\<lambda>t. vt_token t = rand_token ev) (verificationTokens s) \<and> mail_ok ev \<longrightarrow>
            fst (forgot_password_POST ev r s) = fst (forgot_password_POST ev r s') \<and>
            (fst (createRateLimitMiddleware rateLimitConfigs_passwordReset ev r s) = Returns None \<longrightarrow>
               verificationTokens (snd (forgot_password_POST ev r s)) =
                 verificationTokens s @
                   [\<lparr> vt_identifier = user_id u, vt_token = rand_token ev,
                      vt_expires = t_route ev + resetTokenExpiry ev * 1000 \<rparr>] \<and>
               outbox (snd (forgot_password_POST ev r s)) =
                 outbox s @
                   [\<lparr> mail_to = email, mail_subject = ''Password Reset Request'',
                      mail_token = rand_token ev,
                      mail_userName = name_or_User (user_name u) \<rparr>])) \<and>
         (fst (createRateLimitMiddleware rateLimitConfigs_passwordReset ev r s) = Returns None \<and>
          (list_ex (\<lambda>t. vt_token t = rand_token ev) (verificationTokens s) \<or> \<not> mail_ok ev) \<longrightarrow>
            fst (forgot_password_POST ev r s) =
              json_response (Err ''Failed to process password reset request'') 500)"
proof -
  let ?cfg = rateLimitConfigs_passwordReset
  have gate_eq: "fst (createRateLimitMiddleware ?cfg ev r s) =
                 fst (createRateLimitMiddleware ?cfg ev r s')"
    by (rule middleware_fst_store_cong[OF same_limiter]) simp
  consider (pass) "fst (createRateLimitMiddleware ?cfg ev r s') = Returns None"
    | (limited) resp where "fst (createRateLimitMiddleware ?cfg ev r s') = Returns (Some resp)"
    using middleware_never_throws[of ?cfg ev r s']
    by (cases "fst (createRateLimitMiddleware ?cfg ev r s')") auto
  then show ?thesis
  proof cases
    case pass
    then have g: "fst (createRateLimitMiddleware ?cfg ev r s) = Returns None"
      by (simp add: gate_eq)
    show ?thesis
      by (simp add: forgot_unregistered[OF pass body unreg] forgot_registered[OF g body reg]
            Let_def pass g forgot_failed_def)
  next
    case limited
    then have g: "fst (createRateLimitMiddleware ?cfg ev r s) = Returns (Some resp)"
      by (simp add: gate_eq)
    show ?thesis
      by (simp add: forgot_limited[OF limited] forgot_limited[OF g] limited g)
  qed
qed

theorem forgot_password_anti_enumeration_witness:
  "fst (forgot_password_POST demo_env (demo_request (forgot_body ''alice@example.com''))
          unregistered_state) = forgot_ok \<and>
   fst (forgot_password_POST demo_env (demo_request (forgot_body ''alice@example.com''))
          demo_state) = forgot_ok \<and>
   verificationTokens
     (snd (forgot_password_POST demo_env (demo_request (forgot_body ''alice@example.com''))
             unregistered_state)) = verificationTokens unregistered_state \<and>
   outbox
     (snd (forgot_password_POST demo_env (demo_request (forgot_body ''alice@example.com''))
             unregistered_state)) = [] \<and>
   outbox
     (snd (forgot_password_POST demo_env (demo_request (forgot_body ''alice@example.com''))
             demo_state)) =
     [\<lparr> mail_to = ''alice@example.com'', mail_subject = ''Password Reset Request'',
        mail_token = ''tok-2'', mail_userName = ''Alice'' \<rparr>] \<and>
   fst (forgot_password_POST mail_down_env (demo_request (forgot_body ''alice@example.com''))
          demo_state) =
     json_response (Err ''Failed to process password reset request'') 500"
proof -
  have gate_d: "fst (createRateLimitMiddleware rateLimitConfigs_passwordReset ev
                      (demo_request b) demo_state) = Returns None" for ev b
    by (rule gate_absent) simp_all
  have gate_u: "fst (createRateLimitMiddleware rateLimitConfigs_passwordReset ev
                      (demo_request b) unregistered_state) = Returns None" for ev b
    by (rule gate_absent) simp_all
  let ?r = "demo_request (forgot_body ''alice@example.com'')"
  have body: "json_body ?r = Some (forgot_body ''alice@example.com'')"
    "forgotPasswordSchema demo_env (forgot_body ''alice@example.com'') =
       Some ''alice@example.com''"
    by (simp_all add: demo_forgot_schema demo_email_ok)
  have same: "rateLimitStore demo_state = rateLimitStore unregistered_state"
    by (simp add: unregistered_state_def)
  have found: "find (\<lambda>u. user_email u = ''alice@example.com'') (users demo_state) = Some alice"
    "find (\<lambda>u. user_email u = ''alice@example.com'') (users unregistered_state) = None"
    by (simp_all add: alice_def)
  have fresh: "\<not> list_ex (\<lambda>t. vt_token t = rand_token demo_env) (verificationTokens demo_state)"
    "mail_ok demo_env"
    by (simp_all add: demo_env_def demo_state_def)
  have ob: "outbox unregistered_state = []" "outbox demo_state = []"
    "name_or_User (user_name alice) = ''Alice''" "rand_token demo_env = ''tok-2''"
    by (simp_all add: unregistered_state_def demo_state_def name_or_User_def alice_def demo_env_def)
  from forgot_password_anti_enumeration[OF body same found(1) found(2)]
    fresh gate_d[of demo_env] gate_u[of demo_env] ob
  have accepted:
    "fst (forgot_password_POST demo_env ?r unregistered_state) = forgot_ok \<and>
     fst (forgot_password_POST demo_env ?r demo_state) = forgot_ok \<and>
     verificationTokens (snd (forgot_password_POST demo_env ?r unregistered_state)) =
       verificationTokens unregistered_state \<and>
     outbox (snd (forgot_password_POST demo_env ?r unregistered_state)) = [] \<and>
     outbox (snd (forgot_password_POST demo_env ?r demo_state)) =
       [\<lparr> mail_to = ''alice@example.com'', mail_subject = ''Password Reset Request'',
          mail_token = ''tok-2'', mail_userName = ''Alice'' \<rparr>]"
    by simp
  have body_down: "forgotPasswordSchema mail_down_env (forgot_body ''alice@example.com'') =
       Some ''alice@example.com''"
    by (simp add: demo_forgot_schema demo_email_ok)
  have down: "\<not> mail_ok mail_down_env"
    by (simp add: mail_down_env_def)
  from forgot_password_anti_enumeration
         [OF body(1) body_down same found(1) found(2)]
    down gate_d[of mail_down_env]
  have refused: "fst (forgot_password_POST mail_down_env ?r demo_state) =
     json_response (Err ''Failed to process password reset request'') 500"
    by simp
  from accepted refused show ?thesis by simp
qed

text \<open>
  The unconditional form of the anti-enumeration claim fails: with a mail transport that
  refuses the message, the same valid request is answered with 500 when the address is
  registered and with the generic 200 message when it is not.
\<close>

theorem forgot_password_anti_enumeration_counterexample:
  "forgotPasswordSchema mail_down_env (forgot_body ''alice@example.com'') =
     Some ''alice@example.com'' \<and>
   users demo_state = [alice] \<and> user_email alice = ''alice@example.com'' \<and>
   users unregistered_state = [] \<and>
   rateLimitStore demo_state = rateLimitStore unregistered_state \<and>
   fst (forgot_password_POST mail_down_env (demo_request (forgot_body ''alice@example.com''))
          demo_state) =
     json_response (Err ''Failed to process password reset request'') 500 \<and>
   fst (forgot_password_POST mail_down_env (demo_request (forgot_body ''alice@example.com''))
          unregistered_state) = forgot_ok \<and>
   fst (forgot_password_POST mail_down_env (demo_request (forgot_body ''alice@example.com''))
          demo_state) \<noteq>
   fst (forgot_password_POST mail_down_env (demo_request (forgot_body ''alice@example.com''))
          unregistered_state)"
proof -
  have gate_d: "fst (createRateLimitMiddleware rateLimitConfigs_passwordReset ev
                      (demo_request b) demo_state) = Returns None" for ev b
    by (rule gate_absent) simp_all
  have gate_u: "fst (createRateLimitMiddleware rateLimitConfigs_passwordReset ev
                      (demo_request b) unregistered_state) = Returns None" for ev b
    by (rule gate_absent) simp_all
  let ?r = "demo_request (forgot_body ''alice@example.com'')"
  have body: "json_body ?r = Some (forgot_body ''alice@example.com'')"
    "forgotPasswordSchema mail_down_env (forgot_body ''alice@example.com'') =
       Some ''alice@example.com''"
    by (simp_all add: demo_forgot_schema demo_email_ok)
  have found: "find (\<lambda>u. user_email u = ''alice@example.com'') (users demo_state) = Some alice"
    "find (\<lambda>u. user_email u = ''alice@example.com'') (users unregistered_state) = None"
    by (simp_all add: alice_def)
  have reg: "fst (forgot_password_POST mail_down_env ?r demo_state) =
     json_response (Err ''Failed to process password reset request'') 500"
  proof -
    have "\<not> mail_ok mail_down_env"
      "\<not> list_ex (\<lambda>t. vt_token t = rand_token mail_down_env) (verificationTokens demo_state)"
      by (simp_all add: mail_down_env_def demo_env_def demo_state_def)
    then show ?thesis
      by (simp add: forgot_registered[OF gate_d body found(1)] Let_def forgot_failed_def)
  qed
  have unreg: "fst (forgot_password_POST mail_down_env ?r unregistered_state) = forgot_ok"
    by (simp add: forgot_unregistered[OF gate_u body found(2)])
  have "json_response (Err ''Failed to process password reset request'') 500 \<noteq> forgot_ok"
    by (simp add: forgot_ok_def json_response_def)
  moreover have "users demo_state = [alice]" "user_email alice = ''alice@example.com''"
    "users unregistered_state = []"
    "rateLimitStore demo_state = rateLimitStore unregistered_state"
    by (simp_all add: unregistered_state_def alice_def)
  ultimately show ?thesis using reg unreg body by simp
qed

text \<open>
  Claim C10. Take any list of forgot-password requests of one client, each with a body that
  passes the schema, handled one after the other from a state in which the client has no
  rate-limit entry or one below the limit of 3 (as in a fresh process). Then no response has
  status 429, whatever the length of the list; and the count of the client's entry after the
  list is 0 or the count it had at the start, so these requests never increment it.
\<close>

theorem valid_forgot_password_never_limited:
  assumes reqs: "\<forall>(ev, r) \<in> set reqs. defaultKeyGenerator r = k \<and> valid_forgot_request ev r"
      and start: "below_limit rateLimitConfigs_passwordReset k st"
  shows "(\<forall>resp \<in> set (fst (forgot_password_run reqs st)). status resp \<noteq> 429) \<and>
         (\<forall>e'. rateLimitStore (snd (forgot_password_run reqs st)) k = Some e' \<longrightarrow>
             count e' = 0 \<or> (\<exists>e. rateLimitStore st k = Some e \<and> count e' = count e))"
  using reqs start
proof (induction reqs arbitrary: st)
  case Nil
  then show ?case by simp
next
  case (Cons a reqs)
  let ?cfg = rateLimitConfigs_passwordReset
  obtain ev r where a: "a = (ev, r)" by (cases a)
  from Cons.prems(1) a have k: "defaultKeyGenerator r = k" and v: "valid_forgot_request ev r"
    and rest: "\<forall>(ev, r) \<in> set reqs. defaultKeyGenerator r = k \<and> valid_forgot_request ev r"
    by auto
  from Cons.prems(2) k have bl: "below_limit ?cfg (defaultKeyGenerator r) st" by simp
  let ?st1 = "snd (forgot_password_POST ev r st)"
  note step = forgot_valid_step[OF v bl]
  have "below_limit ?cfg (keyOf ?cfg r) (snd (createRateLimitMiddleware ?cfg ev r st))"
    by (rule gate_keeps_below_limit) (use bl in simp_all)
  then have bl1: "below_limit ?cfg k ?st1"
    using k by (simp add: below_limit_def step(2))
  note IH = Cons.IH[OF rest bl1]
  have mid: "\<And>e1. rateLimitStore ?st1 k = Some e1 \<Longrightarrow>
          count e1 = 0 \<or> (\<exists>e. rateLimitStore st k = Some e \<and> count e1 = count e)"
    using gate_store_count[of ?cfg ev r st] k by (simp add: step(2))
  have run: "forgot_password_run (a # reqs) st =
      (fst (forgot_password_POST ev r st) # fst (forgot_password_run reqs ?st1),
       snd (forgot_password_run reqs ?st1))"
    by (simp add: a case_prod_beta)
  show ?case
  proof (intro conjI ballI allI impI)
    fix resp assume "resp \<in> set (fst (forgot_password_run (a # reqs) st))"
    then have "resp = fst (forgot_password_POST ev r st) \<or>
               resp \<in> set (fst (forgot_password_run reqs ?st1))"
      by (simp add: run)
    with step(1) IH show "status resp \<noteq> 429" by blast
  next
    fix e' assume "rateLimitStore (snd (forgot_password_run (a # reqs) st)) k = Some e'"
    then have "rateLimitStore (snd (forgot_password_run reqs ?st1)) k = Some e'"
      by (simp add: run)
    with IH have "count e' = 0 \<or> (\<exists>e1. rateLimitStore ?st1 k = Some e1 \<and> count e' = count e1)"
      by blast
    with mid show "count e' = 0 \<or> (\<exists>e. rateLimitStore st k = Some e \<and> count e' = count e)"
      by (metis)
  qed
qed

theorem valid_forgot_password_never_limited_witness:
  "length (fst (forgot_password_run demo_forgot_requests demo_state)) = 4 \<and>
   429 \<notin> status ` set (fst (forgot_password_run demo_forgot_requests demo_state))"
proof -
  have reqs: "\<forall>(ev, r) \<in> set demo_forgot_requests.
                defaultKeyGenerator r = ''10.0.0.1'' \<and> valid_forgot_request ev r"
  proof -
    have v: "valid_forgot_request ev (demo_request (forgot_body e)) = email_ok ev e" for ev e
      by (simp add: valid_forgot_request_def demo_forgot_schema)
    have "email_ok (demo_env\<lparr> rand_token := ''tok-3'' \<rparr>) ''alice@example.com''"
      by (simp add: demo_env_def)
    then show ?thesis
      by (simp add: demo_forgot_requests_def v demo_email_ok)
  qed
  have start: "below_limit rateLimitConfigs_passwordReset ''10.0.0.1'' demo_state"
    by (simp add: below_limit_def)
  have len: "length (fst (forgot_password_run rs st)) = length rs" for rs st
    by (induction rs arbitrary: st) (auto simp: case_prod_beta)
  from valid_forgot_password_never_limited[OF reqs start]
  have "429 \<notin> status ` set (fst (forgot_password_run demo_forgot_requests demo_state))"
    by (fastforce simp: image_iff)
  moreover have "length demo_forgot_requests = 4" by (simp add: demo_forgot_requests_def)
  ultimately show ?thesis by (simp only: len simp_thms)
qed

text \<open>
  Claim C4, evaluated. On the sample state the registration handler answers a body that
  fails the schema with 400 and a weak password with 400, and in both cases the client's
  rate-limit entry is the fresh one that the gate created: count 0 and no failed attempt.
  A registration with an e-mail address that is already registered is answered with 409 and
  leaves count 1 and one failed attempt. So the two 400 paths do not record the request
  against the quota, while the 409 path does.
\<close>

theorem register_rejection_not_counted:
  "fst (register_POST demo_env (demo_request (register_body ''T'' ''invalid-email'' ''short''))
          demo_state) =
     json_response (ErrDetails ''Invalid input data'' SchemaIssues) 400 \<and>
   rateLimitStore
     (snd (register_POST demo_env (demo_request (register_body ''T'' ''invalid-email'' ''short''))
             demo_state)) ''10.0.0.1'' =
     Some \<lparr> count = 0, resetAt = 3601000, failedAttempts = 0, lastFailedAt = None \<rparr> \<and>
   status (fst (register_POST demo_env
                  (demo_request (register_body ''Bob'' ''bob@example.com'' ''password''))
                  demo_state)) = 400 \<and>
   rateLimitStore
     (snd (register_POST demo_env
             (demo_request (register_body ''Bob'' ''bob@example.com'' ''password''))
             demo_state)) ''10.0.0.1'' =
     Some \<lparr> count = 0, resetAt = 3601000, failedAttempts = 0, lastFailedAt = None \<rparr> \<and>
   fst (register_POST demo_env
          (demo_request (register_body ''Alice'' ''alice@example.com'' ''Secret123!''))
          demo_state) =
     json_response (Err ''Email already registered'') 409 \<and>
   rateLimitStore
     (snd (register_POST demo_env
             (demo_request (register_body ''Alice'' ''alice@example.com'' ''Secret123!''))
             demo_state)) ''10.0.0.1'' =
     Some \<lparr> count = 1, resetAt = 3601000, failedAttempts = 1, lastFailedAt = Some 1000 \<rparr>"
proof -
  let ?cfg = rateLimitConfigs_auth
  let ?fresh = "\<lparr> count = 0, resetAt = 3601000, failedAttempts = 0, lastFailedAt = None \<rparr>"
  have w: "windowMs ?cfg = 3600000" "t_check demo_env = 1000" "t_update demo_env = 1000"
    by (simp_all add: rateLimitConfigs_auth_def demo_env_def)
  have gate: "fst (createRateLimitMiddleware ?cfg demo_env (demo_request b) demo_state) =
                Returns None" for b
    by (rule gate_absent) simp_all
  have entry: "rateLimitStore (snd (createRateLimitMiddleware ?cfg demo_env (demo_request b)
                 demo_state)) ''10.0.0.1'' = Some ?fresh" for b
    using gate_absent(2)[of demo_state ?cfg "demo_request b" demo_env]
    by (simp add: plain_address w)
  have s1: "registerSchema demo_env (register_body ''T'' ''invalid-email'' ''short'') = None"
    by (simp add: demo_register_schema)
  have s2: "registerSchema demo_env (register_body ''Bob'' ''bob@example.com'' ''password'') =
      Some \<lparr> rd_name = ''Bob'', rd_email = ''bob@example.com'', rd_password = ''password'' \<rparr>"
    by (simp add: demo_register_schema demo_env_def)
  have w2: "validatePasswordStrength
       (rd_password \<lparr> rd_name = ''Bob'', rd_email = ''bob@example.com'', rd_password = ''password'' \<rparr>)
       \<noteq> []"
    by (simp add: validatePasswordStrength_def is_upper_def is_lower_def is_digit_def)
  have s3: "registerSchema demo_env (register_body ''Alice'' ''alice@example.com'' ''Secret123!'') =
      Some \<lparr> rd_name = ''Alice'', rd_email = ''alice@example.com'', rd_password = ''Secret123!'' \<rparr>"
    by (simp add: demo_register_schema demo_env_def)
  have w3: "validatePasswordStrength
       (rd_password \<lparr> rd_name = ''Alice'', rd_email = ''alice@example.com'',
                      rd_password = ''Secret123!'' \<rparr>) = []"
    by (simp add: validatePasswordStrength_def is_upper_def is_lower_def is_digit_def)
  have f3: "find (\<lambda>u. user_email u =
                rd_email \<lparr> rd_name = ''Alice'', rd_email = ''alice@example.com'',
                           rd_password = ''Secret123!'' \<rparr>) (users demo_state) = Some alice"
    by (simp add: alice_def)
  have upd: "updateRateLimit 1000 (demo_request b) ?cfg False
          (snd (createRateLimitMiddleware ?cfg demo_env (demo_request b) demo_state)) =
     Some ((snd (createRateLimitMiddleware ?cfg demo_env (demo_request b) demo_state))
             \<lparr> rateLimitStore :=
                 (rateLimitStore (snd (createRateLimitMiddleware ?cfg demo_env (demo_request b)
                    demo_state)))(''10.0.0.1'' \<mapsto>
                   \<lparr> count = 1, resetAt = 3601000, failedAttempts = 1,
                     lastFailedAt = Some 1000 \<rparr>) \<rparr>)" for b
    using update_failure_own[of "snd (createRateLimitMiddleware ?cfg demo_env (demo_request b)
                                        demo_state)" ?cfg "demo_request b" ?fresh
                                "t_update demo_env"] entry[of b]
    by (simp add: w)
  show ?thesis
    by (simp add: register_rejected(1)[OF gate sample_bodies(1) s1]
          register_rejected(2)[OF gate sample_bodies(1) s2 w2]
          register_rejected(3)[OF gate sample_bodies(1) s3 w3 f3]
          entry upd w json_response_def)
qed

end
